theory Spec2Isabelle
  imports Complex_Main "HOL-Library.Monad_Syntax" "HOL-Library.Signed_Division"
begin

section \<open>Go values shared by the handlers\<close>

text \<open>
  A Go \<open>error\<close> is modelled by its message; \<open>nil\<close> is \<open>None\<close>. A handler either returns a
  response together with an error value, or the goroutine panics before it returns.
  Calls to \<open>log.Printf\<close> have no effect on any result and are left out.
\<close>

type_synonym error = string

datatype panic = NilPointerDereference | IndexOutOfRange

record Response =
  StatusCode :: int
  IsBase64Encoded :: bool
  Body :: string
  Headers :: "string \<rightharpoonup> string"

datatype outcome = Panicked panic | Returned Response "error option"

text \<open>\<open>xs[0]\<close> on a slice: a run-time panic when the slice is nil or empty.\<close>

definition index0 :: "'a list \<Rightarrow> 'a option" where
  "index0 xs = (case xs of [] \<Rightarrow> None | x # _ \<Rightarrow> Some x)"

subsection \<open>Package time\<close>

text \<open>
  A \<open>time.Time\<close> is the instant it denotes, in nanoseconds since the Unix epoch; the wall-clock
  reading depends on the location, which is looked up separately. A \<open>time.Duration\<close> is an
  \<open>int64\<close> count of nanoseconds; \<open>Time.Sub\<close> saturates at the ends of that range.
\<close>

type_synonym Time = int
type_synonym Duration = int

definition Second :: Duration where
  "Second = 1000000000"

definition Hour :: Duration where
  "Hour = 3600 * Second"

definition minDuration :: Duration where
  "minDuration = - (2 ^ 63)"

definition maxDuration :: Duration where
  "maxDuration = 2 ^ 63 - 1"

definition Sub :: "Time \<Rightarrow> Time \<Rightarrow> Duration" where
  "Sub t u = (let d = t - u in
     if d < minDuration then minDuration
     else if maxDuration < d then maxDuration
     else d)"

definition Unix :: "Time \<Rightarrow> int" where
  "Unix t = t div Second"

definition nsec :: "Time \<Rightarrow> int" where
  "nsec t = t mod Second"

subsection \<open>float64\<close>

text \<open>
  A finite \<open>float64\<close> is a value \<open>m * 2^e\<close> with \<open>\<bar>m\<bar> < 2^53\<close> and
  \<open>-1074 \<le> e \<le> 971\<close>. Go's arithmetic on \<open>float64\<close> is IEEE 754 binary64 with
  rounding to nearest, ties to even: the exact result is rounded to the nearest multiple of
  the quantum of its binade, \<open>2^(e - 52)\<close> for \<open>2^e \<le> \<bar>x\<bar> < 2^(e + 1)\<close> and \<open>2^-1074\<close> below
  \<open>2^-1022\<close>.

  \<open>rne\<close> rounds to the nearest integer, ties to even. \<open>round_scaled\<close> rounds a value
  \<open>z \<ge> 0\<close> that is scaled by \<open>2^1074\<close>, so that the smallest quantum is 1 and the quantum of
  \<open>z\<close> is \<open>2^j\<close> for the largest \<open>j \<le> 2045\<close> with \<open>2^(j + 52) \<le> z\<close> (\<open>j = 0\<close> when there is
  none). \<open>round_binary64\<close> scales, rounds the magnitude and scales back. Beyond the largest
  finite \<open>float64\<close> IEEE 754 yields an infinity; the model goes on with the largest quantum.
  No value in the handlers comes near: an \<open>int64\<close> of nanoseconds is less than \<open>2^22\<close> hours.
\<close>

definition rne :: "rat \<Rightarrow> int" where
  "rne y = (let f = \<lfloor>y\<rfloor>; d = y - of_int f in
     if d < 1 / 2 then f
     else if 1 / 2 < d then f + 1
     else if even f then f else f + 1)"

fun qexp :: "nat \<Rightarrow> rat \<Rightarrow> nat" where
  "qexp 0 z = 0"
| "qexp (Suc j) z = (if 2 ^ (Suc j + 52) \<le> z then Suc j else qexp j z)"

definition round_scaled :: "rat \<Rightarrow> rat" where
  "round_scaled z = (let j = qexp 2045 z in of_int (rne (z / 2 ^ j)) * 2 ^ j)"

definition round_binary64 :: "rat \<Rightarrow> rat" where
  "round_binary64 x =
     (if x < 0 then - (round_scaled (- x * 2 ^ 1074) / 2 ^ 1074)
      else round_scaled (x * 2 ^ 1074) / 2 ^ 1074)"

text \<open>The conversion \<open>float64(n)\<close> of an integer.\<close>

definition float64_of_int :: "int \<Rightarrow> rat" where
  "float64_of_int n = round_binary64 (of_int n)"

text \<open>
  \<open>Duration.Hours\<close> is
  \<^verbatim>\<open>hour := d / Hour; nsec := d % Hour; return float64(hour) + float64(nsec)/(60*60*1e9)\<close>.
  Go's \<open>/\<close> and \<open>%\<close> on integers truncate towards zero (\<open>sdiv\<close>, \<open>smod\<close>). The two
  conversions, the quotient and the sum are each rounded to a \<open>float64\<close>; the constant
  \<open>60*60*1e9\<close> is a \<open>float64\<close> as it stands.
\<close>

definition Hours :: "Duration \<Rightarrow> rat" where
  "Hours d = (let hour = d sdiv Hour; ns = d smod Hour in
     round_binary64 (float64_of_int hour
       + round_binary64 (float64_of_int ns / 3600000000000)))"

text \<open>
  The two properties of the rounding that the threshold of twelve hours rests on: it is
  monotone, and it leaves every \<open>float64\<close> value alone. \<open>binary64\<close> says that a rational
  is a finite \<open>float64\<close>.
\<close>

definition binary64 :: "rat \<Rightarrow> bool" where
  "binary64 x \<longleftrightarrow> (\<exists>m::int. \<exists>k::nat. \<bar>m\<bar> < 2 ^ 53 \<and>
     ((k \<le> 971 \<and> x = of_int m * 2 ^ k) \<or> (k \<le> 1074 \<and> x = of_int m / 2 ^ k)))"

definition float64_rounding :: "(rat \<Rightarrow> rat) \<Rightarrow> bool" where
  "float64_rounding fl \<longleftrightarrow> (\<forall>x y. x \<le> y \<longrightarrow> fl x \<le> fl y) \<and> (\<forall>x. binary64 x \<longrightarrow> fl x = x)"

subsection \<open>Package strings and fmt\<close>

text \<open>
  Strings are byte sequences. \<open>strings.ToLower\<close> adds \<open>'a' - 'A'\<close> to the bytes
  \<open>'A'..'Z'\<close>. On text outside ASCII Go maps runes through the Unicode tables instead; the
  only runes outside ASCII that become an ASCII letter are U+212A (\<open>k\<close>) and U+0130
  (\<open>i\<close>), neither of which occurs in \<open>summary\<close>, so the one comparison the handler makes
  with the result is decided by the rule for bytes.
\<close>

definition toLowerByte :: "char \<Rightarrow> char" where
  "toLowerByte c = (let n = of_char c :: nat in
     if 65 \<le> n \<and> n \<le> 90 then char_of (n + 32) else c)"

definition ToLower :: "string \<Rightarrow> string" where
  "ToLower s = map toLowerByte s"

text \<open>\<open>%d\<close> of a slice length.\<close>

fun itoa :: "nat \<Rightarrow> string" where
  "itoa n = (if n < 10 then [char_of (48 + n)]
     else itoa (n div 10) @ [char_of (48 + n mod 10)])"

fun Join :: "string list \<Rightarrow> string \<Rightarrow> string" where
  "Join [] sep = []"
| "Join [x] sep = x"
| "Join (x # y # ys) sep = x @ sep @ Join (y # ys) sep"

section \<open>The data model\<close>

record Win =
  UserID :: string
  UserName :: string
  Who :: string
  Title :: string
  Description :: string
  CreatedAt :: Time
  UpdatedAt :: Time
  TTL :: int

record WinSummary =
  Who :: string
  Title :: string
  Description :: string
  CreatedAt :: string

text \<open>The \<open>Request\<close> of KanowinsCommand: the decoded form of a slash command.\<close>

record Command_Request =
  Token :: string
  TeamID :: string
  TeamDomain :: string
  ChannelID :: string
  ChannelName :: string
  UserID :: string
  UserName :: string
  Text :: string
  TriggerID :: string
  ResponseURL :: string

record Element =
  Label :: string
  Type :: string
  Name :: string
  Value :: string
  Hint :: string
  Optional :: bool

record Dialog =
  Title :: string
  CallbackID :: string
  SubmitLabel :: string
  Elements :: "Element list"

record Payload =
  TriggerID :: string
  Dialog :: Dialog

text \<open>The \<open>Request\<close> of KanowinsInteractiveComponent: the decoded dialog submission.\<close>

record submission =
  Who :: string
  Title :: string
  Description :: string

record user =
  ID :: string
  Name :: string

record Interactive_Request =
  Type :: string
  Submission :: submission
  CallbackID :: string
  User :: user
  ActionTS :: string
  Token :: string
  ResponseURL :: string

section \<open>The world outside the handlers\<close>

text \<open>
  Everything a handler reads from or sends to its surroundings during one invocation: the
  process environment, the clock and the local time zone, the standard library's parsers and
  encoders, the AWS SDK and the HTTP client. The outcome of each call is a field of
  \<open>world\<close>; the calls a handler makes are recorded, in order, as a list of \<open>event\<close>s.
\<close>

text \<open>What \<open>Location.lookup\<close> returns for an instant: the offset from UTC in effect and the
  interval of Unix seconds over which it is in effect.\<close>

record zone =
  offset :: int
  zstart :: int
  zend :: int

record HttpRequest =
  Method :: string
  URL :: string
  ContentType :: string
  Authorization :: string
  Content :: string

text \<open>A DynamoDB item as returned by a scan: attribute names and values.\<close>

type_synonym item = "(string \<times> string) list"

record world =
  Getenv :: "string \<Rightarrow> string"
  Now :: "nat \<Rightarrow> Time" \<comment> \<open>the successive readings of \<open>time.Now()\<close>\<close>
  Local_lookup :: "int \<Rightarrow> zone" \<comment> \<open>\<open>lookup\<close> of \<open>time.Local\<close>\<close>
  Format_RFC3339 :: "Time \<Rightarrow> string"
  url_Parse :: "string \<Rightarrow> error + string" \<comment> \<open>the \<open>RawQuery\<close> of the parsed URL\<close>
  url_ParseQuery :: "string \<Rightarrow> string \<Rightarrow> string list" \<comment> \<open>\<open>url.Values\<close>: the values of a key, \<open>[]\<close> for a key that is absent\<close>
  json_encode_Payload :: "Payload \<Rightarrow> string"
  json_MarshalIndent :: "WinSummary list \<Rightarrow> string"
  json_encode_text :: "string \<Rightarrow> string"
  json_Unmarshal :: "string \<Rightarrow> Interactive_Request \<times> error option"
  json_Decode_map :: "string \<Rightarrow> error option"
  json_Decode_status :: "string \<Rightarrow> error option"
  url_error :: "string \<Rightarrow> error option" \<comment> \<open>why \<open>http.NewRequest\<close> rejects a URL\<close>
  client_Do :: "HttpRequest \<Rightarrow> error + string" \<comment> \<open>the body of the response\<close>
  session_NewSession :: "string \<Rightarrow> error option"
  dynamodb_Scan :: "string \<Rightarrow> error + item list"
  UnmarshalListOfMaps :: "item list \<Rightarrow> Win list \<times> error option"
  MarshalMap_error :: "Win \<Rightarrow> error option"
  dynamodb_PutItem :: "string \<Rightarrow> Win \<Rightarrow> error option"

datatype event =
    NewSession string \<comment> \<open>\<open>session.NewSession\<close> for a region\<close>
  | ScanInput string \<comment> \<open>\<open>srv.Scan\<close> of a table\<close>
  | PutItemInput string Win \<comment> \<open>\<open>srv.PutItem\<close> of the item marshalled from a \<open>Win\<close>\<close>
  | Do HttpRequest \<comment> \<open>\<open>client.Do\<close>\<close>

definition apiEndpoint :: string where
  "apiEndpoint = ''https://slack.com/api/dialog.open''"

text \<open>
  \<open>json.Marshal\<close> fails only on values it cannot encode (channels, functions, cycles,
  non-finite floats). \<open>Payload\<close> holds strings, booleans and slices of such structs, so the
  call at line 164 returns no error. \<open>http.NewRequest\<close> fails when the method is not a token or
  the URL does not parse; \<open>POST\<close> is a token and the fixed endpoint parses.
\<close>

definition json_Marshal :: "world \<Rightarrow> Payload \<Rightarrow> error + string" where
  "json_Marshal w p = Inr (json_encode_Payload w p)"

definition http_NewRequest :: "world \<Rightarrow> string \<Rightarrow> string \<Rightarrow> error option" where
  "http_NewRequest w method u = (if u = apiEndpoint then None else url_error w u)"

text \<open>
  \<open>t.AddDate(0, 0, days)\<close> reads the date and the clock of \<open>t\<close> in its location and hands
  them to \<open>time.Date\<close> with the day increased. \<open>Date\<close> normalises a day beyond the end of
  the month by counting days, so the wall-clock reading moves by \<open>days * 86400\<close> seconds; it
  then looks for the offset in effect at that reading to go back to UTC:
  \<^verbatim>\<open>
  _, offset, start, end, _ := l.lookup(unix)
  if offset != 0 {
      utc := unix - int64(offset)
      if utc < start || utc >= end { _, offset, _, _, _ = l.lookup(utc) }
      unix -= int64(offset)
  }\<close>
  The nanoseconds within the second are kept.
\<close>

definition abs_sec :: "world \<Rightarrow> Time \<Rightarrow> int" where
  "abs_sec w t = Unix t + offset (Local_lookup w (Unix t))"

definition Date_unix :: "world \<Rightarrow> int \<Rightarrow> int" where
  "Date_unix w unix = (let z = Local_lookup w unix in
     if offset z \<noteq> 0 then
       (let utc = unix - offset z;
            off = (if utc < zstart z \<or> zend z \<le> utc then offset (Local_lookup w utc)
                   else offset z)
        in unix - off)
     else unix)"

definition AddDate_days :: "world \<Rightarrow> int \<Rightarrow> Time \<Rightarrow> Time" where
  "AddDate_days w days t = Date_unix w (abs_sec w t + days * 86400) * Second + nsec t"

section \<open>KanowinsCommand\<close>

definition handler_Command :: string where
  "handler_Command = ''KanowinsCommand''"

definition json_headers :: "string \<rightharpoonup> string" where
  "json_headers = [''Content-Type'' \<mapsto> ''application/json'']"

definition GetDB :: "world \<Rightarrow> error option \<times> event list" where
  "GetDB w = (let region = Getenv w ''REGION'' in
     (session_NewSession w region, [NewSession region]))"

definition GetWins :: "world \<Rightarrow> (Win list \<times> error option) \<times> event list" where
  "GetWins w = (case GetDB w of
       (Some err, evs) \<Rightarrow> (([], Some err), evs)
     | (None, evs) \<Rightarrow>
         (let table = Getenv w ''TABLE_NAME'' in
          case dynamodb_Scan w table of
            Inl err \<Rightarrow> (([], Some err), evs @ [ScanInput table])
          | Inr items \<Rightarrow> (UnmarshalListOfMaps w items, evs @ [ScanInput table])))"

text \<open>
  The row appended at lines 250 to 255. \<open>Format(time.RFC3339)\<close> yields at least twenty
  bytes (a year of four digits or more, five two-digit fields, five separators and a zone),
  so the slice \<open>[:19]\<close> is always in range.
\<close>

definition summary_row :: "world \<Rightarrow> Win \<Rightarrow> WinSummary" where
  "summary_row w win =
     \<lparr>WinSummary.Who = Win.Who win,
      WinSummary.Title = Win.Title win,
      WinSummary.Description = Win.Description win,
      WinSummary.CreatedAt = take 19 (Format_RFC3339 w (Win.CreatedAt win))\<rparr>"

text \<open>
  The loop of \<open>getSummary\<close> (lines 248 to 257). \<open>time.Now()\<close> is read once for every
  \<open>Win\<close>; \<open>k\<close> counts the readings.
\<close>

fun getSummary_loop :: "world \<Rightarrow> nat \<Rightarrow> Win list \<Rightarrow> WinSummary list \<Rightarrow> WinSummary list" where
  "getSummary_loop w k [] winsSummary = winsSummary"
| "getSummary_loop w k (win # wins) winsSummary =
     (if 12 < Hours (Sub (Now w k) (Win.CreatedAt win))
      then getSummary_loop w (Suc k) wins (winsSummary @ [summary_row w win])
      else getSummary_loop w (Suc k) wins winsSummary)"

definition summaryText :: "world \<Rightarrow> WinSummary list \<Rightarrow> string list" where
  "summaryText w winsSummary =
     [''============================='',
      '' Summary for last 7 days (TTL)'',
      '' WINS count: '' @ itoa (length winsSummary),
      ''============================='',
      [],
      json_MarshalIndent w winsSummary]"

text \<open>
  The filter as the specification words it: the \<open>Win\<close>s whose age, the reading of the clock
  minus \<open>created_at\<close>, exceeds twelve hours. The \<open>i\<close>-th \<open>Win\<close> is measured against the
  \<open>i\<close>-th reading.
\<close>

definition older_than_12h :: "world \<Rightarrow> Win list \<Rightarrow> Win list" where
  "older_than_12h w wins = map fst
     (filter (\<lambda>(win, i). 12 * Hour < Now w i - Win.CreatedAt win)
        (zip wins [0..<length wins]))"

text \<open>Lines 247 to 276 of \<open>getSummary\<close>: the request that delivers the report.\<close>

definition summary_request :: "world \<Rightarrow> Command_Request \<Rightarrow> Win list \<Rightarrow> HttpRequest" where
  "summary_request w request wins =
     (let winsSummary = getSummary_loop w 0 wins [];
          summary = json_encode_text w (Join (summaryText w winsSummary) [CHR 0x0A])
      in \<lparr>Method = ''POST'',
          URL = Command_Request.ResponseURL request,
          ContentType = ''application/json'',
          Authorization = ''Bearer '' @ Getenv w ''SLACK_ACCESS_TOKEN'',
          Content = summary\<rparr>)"

text \<open>
  \<open>getSummary\<close> has the named results \<open>wins\<close> and \<open>err\<close>; every \<open>:=\<close> in its body
  that names \<open>err\<close> stands in the function's outermost block and so assigns the result.
  The last assignment is the one from \<open>Decode\<close>, and the bare \<open>return\<close> returns it.
\<close>

definition getSummary :: "world \<Rightarrow> Command_Request \<Rightarrow> (Win list \<times> error option) \<times> event list" where
  "getSummary w request = (case GetWins w of
       ((wins, Some err), evs) \<Rightarrow> ((wins, Some err), evs)
     | ((wins, None), evs) \<Rightarrow>
         (case http_NewRequest w ''POST'' (Command_Request.ResponseURL request) of
            Some err \<Rightarrow> ((wins, Some err), evs)
          | None \<Rightarrow>
              (let req = summary_request w request wins
               in case client_Do w req of
                    Inl err \<Rightarrow> ((wins, Some err), evs @ [Do req])
                  | Inr respBody \<Rightarrow> ((wins, json_Decode_map w respBody), evs @ [Do req]))))"

text \<open>Lines 125 to 136 of \<open>Handler\<close>: each field is element 0 of the values of its key.\<close>

definition decode_Request :: "(string \<Rightarrow> string list) \<Rightarrow> Command_Request option" where
  "decode_Request query = do {
     token \<leftarrow> index0 (query ''token'');
     team_id \<leftarrow> index0 (query ''team_id'');
     team_domain \<leftarrow> index0 (query ''team_domain'');
     channel_id \<leftarrow> index0 (query ''channel_id'');
     channel_name \<leftarrow> index0 (query ''channel_name'');
     user_id \<leftarrow> index0 (query ''user_id'');
     user_name \<leftarrow> index0 (query ''user_name'');
     text \<leftarrow> index0 (query ''text'');
     trigger_id \<leftarrow> index0 (query ''trigger_id'');
     response_url \<leftarrow> index0 (query ''response_url'');
     Some \<lparr>Command_Request.Token = token,
           TeamID = team_id,
           TeamDomain = team_domain,
           ChannelID = channel_id,
           ChannelName = channel_name,
           Command_Request.UserID = user_id,
           Command_Request.UserName = user_name,
           Text = text,
           Command_Request.TriggerID = trigger_id,
           Command_Request.ResponseURL = response_url\<rparr>
   }"

text \<open>Lines 164 to 219 of \<open>Handler\<close>: the dialog is built and sent; the result is the last
  value of \<open>err\<close>, which nothing reads.\<close>

definition dialog_Payload :: "Command_Request \<Rightarrow> Payload" where
  "dialog_Payload request =
     \<lparr>Payload.TriggerID = Command_Request.TriggerID request,
      Dialog = \<lparr>Dialog.Title = ''Submit a WIN'',
                Dialog.CallbackID = ''submit-win'',
                SubmitLabel = ''Submit'',
                Elements =
                  [\<lparr>Label = ''Who?'', Element.Type = ''text'', Element.Name = ''who'',
                    Value = Text request,
                    Hint = ''The name of the person who has this WIN'', Optional = False\<rparr>,
                   \<lparr>Label = ''Title'', Element.Type = ''text'', Element.Name = ''title'',
                    Value = [],
                    Hint = ''Title of this WIN'', Optional = False\<rparr>,
                   \<lparr>Label = ''Long description'', Element.Type = ''textarea'',
                    Element.Name = ''description'',
                    Value = [],
                    Hint = ''Long description of this WIN (if any)'', Optional = True\<rparr>]\<rparr>\<rparr>"

definition Handler_dialog :: "world \<Rightarrow> Command_Request \<Rightarrow> error option \<times> event list" where
  "Handler_dialog w request = (case json_Marshal w (dialog_Payload request) of
       Inl err \<Rightarrow> (Some err, [])
     | Inr payload \<Rightarrow>
         (case http_NewRequest w ''POST'' apiEndpoint of
            Some reqErr \<Rightarrow> (Some reqErr, [])
          | None \<Rightarrow>
              (let req = \<lparr>Method = ''POST'',
                          URL = apiEndpoint,
                          ContentType = ''application/json'',
                          Authorization = ''Bearer '' @ Getenv w ''SLACK_ACCESS_TOKEN'',
                          Content = payload\<rparr>
               in case client_Do w req of
                    Inl respErr \<Rightarrow> (Some respErr, [Do req])
                  | Inr body \<Rightarrow> (json_Decode_status w body, [Do req]))))"

text \<open>
  \<open>Handler\<close>, from the body of the proxy request. When \<open>url.Parse\<close> fails it returns a nil
  \<open>*URL\<close>, the error is logged, and \<open>form.RawQuery\<close> dereferences nil.
\<close>

definition Command_Handler :: "world \<Rightarrow> string \<Rightarrow> outcome \<times> event list" where
  "Command_Handler w body = (case url_Parse w (''?'' @ body) of
       Inl err \<Rightarrow> (Panicked NilPointerDereference, [])
     | Inr rawQuery \<Rightarrow>
         (case decode_Request (url_ParseQuery w rawQuery) of
            None \<Rightarrow> (Panicked IndexOutOfRange, [])
          | Some request \<Rightarrow>
              if Command_Request.Token request \<noteq> Getenv w ''SLACK_VERIFICATION_TOKEN'' then
                (let err = ''invalid verification token'' in
                 (Returned \<lparr>StatusCode = 400, IsBase64Encoded = False,
                            Body = handler_Command @ '' submitting - error: '' @ err,
                            Headers = json_headers\<rparr> (Some err), []))
              else
                (let (serr, evs) =
                   (if ToLower (Text request) = ''summary''
                    then (let ((wins, err), evs) = getSummary w request in (err, evs))
                    else (None, []))
                 in case serr of
                      Some err \<Rightarrow>
                        (Returned \<lparr>StatusCode = 400, IsBase64Encoded = False,
                                   Body = handler_Command @ '' summary - error: '' @ err,
                                   Headers = json_headers\<rparr> (Some err), evs)
                    | None \<Rightarrow>
                        (let (err, devs) = Handler_dialog w request in
                         (Returned \<lparr>StatusCode = 200, IsBase64Encoded = False,
                                    Body = [],
                                    Headers = json_headers\<rparr> None, evs @ devs)))))"

section \<open>KanowinsInteractiveComponent\<close>

text \<open>
  \<open>PutItem\<close>. \<open>GetDB\<close> is the same function as in KanowinsCommand. The result is the error
  returned and the calls made; a \<open>PutItemInput\<close> among them carries the \<open>Win\<close> written.
\<close>

definition PutItem :: "world \<Rightarrow> Interactive_Request \<Rightarrow> error option \<times> event list" where
  "PutItem w request =
     (let description = submission.Description (Submission request);
          description = (if length description = 0 then ''Big WIN!'' else description);
          now = Now w 0;
          win = \<lparr>Win.UserID = ID (User request),
                 Win.UserName = Name (User request),
                 Win.Who = submission.Who (Submission request),
                 Win.Title = submission.Title (Submission request),
                 Win.Description = description,
                 Win.CreatedAt = now,
                 UpdatedAt = now,
                 TTL = 0\<rparr>
      in case GetDB w of
           (Some err, evs) \<Rightarrow> (Some err, evs)
         | (None, evs) \<Rightarrow>
             (let win = win\<lparr>TTL := Unix (AddDate_days w 7 (UpdatedAt win))\<rparr> in
              case MarshalMap_error w win of
                Some err \<Rightarrow> (Some err, evs)
              | None \<Rightarrow>
                  (let table = Getenv w ''TABLE_NAME'' in
                   (dynamodb_PutItem w table win, evs @ [PutItemInput table win]))))"

definition Interactive_Handler :: "world \<Rightarrow> string \<Rightarrow> outcome \<times> event list" where
  "Interactive_Handler w body = (case url_Parse w (''?'' @ body) of
       Inl err \<Rightarrow> (Panicked NilPointerDereference, [])
     | Inr rawQuery \<Rightarrow>
         (case index0 (url_ParseQuery w rawQuery ''payload'') of
            None \<Rightarrow> (Panicked IndexOutOfRange, [])
          | Some payload \<Rightarrow>
              (let (request, err) = json_Unmarshal w payload;
                   (err, evs) = PutItem w request
               in (Returned \<lparr>StatusCode = 200, IsBase64Encoded = False,
                              Body = [],
                              Headers = json_headers\<rparr> None, evs))))"

text \<open>The \<open>Win\<close>s handed to \<open>srv.PutItem\<close> in a list of calls.\<close>

fun written :: "event list \<Rightarrow> Win list" where
  "written [] = []"
| "written (PutItemInput table win # evs) = win # written evs"
| "written (ev # evs) = written evs"

text \<open>
  \<open>getSummary\<close> starts with \<open>GetWins\<close>, which starts with \<open>GetDB\<close>; nothing else in
  KanowinsCommand opens a session. A session opened is therefore the mark, among the calls of
  an invocation, that \<open>getSummary\<close> was invoked.
\<close>

fun is_NewSession :: "event \<Rightarrow> bool" where
  "is_NewSession (NewSession region) = True"
| "is_NewSession ev = False"

definition summary_invoked :: "event list \<Rightarrow> bool" where
  "summary_invoked evs = list_ex is_NewSession evs"

text \<open>The keys read at lines 126 to 135.\<close>

definition Command_fields :: "string list" where
  "Command_fields = [''token'', ''team_id'', ''team_domain'', ''channel_id'', ''channel_name'',
     ''user_id'', ''user_name'', ''text'', ''trigger_id'', ''response_url'']"

section \<open>Example invocations\<close>

text \<open>
  A world in which every call succeeds: the Lambda runtime runs in UTC, the table holds three
  \<open>Win\<close>s created eleven, twelve and thirteen hours before the clock's reading, and the chat
  platform acknowledges with JSON. The encoders and the query parser are tables over the
  inputs of the examples.
\<close>

definition example_env :: "string \<Rightarrow> string" where
  "example_env k =
     (if k = ''SLACK_VERIFICATION_TOKEN'' then ''secret''
      else if k = ''SLACK_ACCESS_TOKEN'' then ''xoxb-1''
      else if k = ''TABLE_NAME'' then ''wins''
      else if k = ''REGION'' then ''eu-west-1''
      else [])"

definition example_form :: "string \<Rightarrow> string \<Rightarrow> (string \<times> string) list" where
  "example_form token text =
     [(''token'', token), (''team_id'', ''T1''), (''team_domain'', ''kano''),
      (''channel_id'', ''C1''), (''channel_name'', ''general''), (''user_id'', ''U1''),
      (''user_name'', ''carol''), (''text'', text), (''trigger_id'', ''tr1''),
      (''response_url'', ''https://hooks.slack.com/commands/1'')]"

definition example_body :: "string \<Rightarrow> string \<Rightarrow> string" where
  "example_body token text =
     ''token='' @ token @ ''&team_id=T1&team_domain=kano&channel_id=C1&channel_name=general''
     @ ''&user_id=U1&user_name=carol&text='' @ text
     @ ''&trigger_id=tr1&response_url=https%3A%2F%2Fhooks.slack.com%2Fcommands%2F1''"

definition payload_bob :: string where
  \<open>payload_bob = ''{"type":"dialog_submission","submission":{"who":"Bob","title":"Shipped feature","description":null},"user":{"id":"U1","name":"carol"}}''\<close>

definition request_bob :: Interactive_Request where
  "request_bob =
     \<lparr>Interactive_Request.Type = ''dialog_submission'',
      Submission = \<lparr>submission.Who = ''Bob'', submission.Title = ''Shipped feature'',
                     submission.Description = []\<rparr>,
      Interactive_Request.CallbackID = [],
      User = \<lparr>ID = ''U1'', Name = ''carol''\<rparr>,
      ActionTS = [],
      Interactive_Request.Token = [],
      Interactive_Request.ResponseURL = []\<rparr>"

text \<open>A submission with an empty title, as a client other than the dialog can post it.\<close>

definition payload_untitled :: string where
  \<open>payload_untitled = ''{"type":"dialog_submission","submission":{"who":"Bob","title":"","description":null},"user":{"id":"U1","name":"carol"}}''\<close>

definition request_untitled :: Interactive_Request where
  "request_untitled =
     \<lparr>Interactive_Request.Type = ''dialog_submission'',
      Submission = \<lparr>submission.Who = ''Bob'', submission.Title = [],
                     submission.Description = []\<rparr>,
      Interactive_Request.CallbackID = [],
      User = \<lparr>ID = ''U1'', Name = ''carol''\<rparr>,
      ActionTS = [],
      Interactive_Request.Token = [],
      Interactive_Request.ResponseURL = []\<rparr>"

text \<open>The zero value of \<open>Request\<close>, which \<open>json.Unmarshal\<close> leaves untouched when the
  payload is not JSON.\<close>

definition request_zero :: Interactive_Request where
  "request_zero =
     \<lparr>Interactive_Request.Type = [],
      Submission = \<lparr>submission.Who = [], submission.Title = [], submission.Description = []\<rparr>,
      Interactive_Request.CallbackID = [],
      User = \<lparr>ID = [], Name = []\<rparr>,
      ActionTS = [],
      Interactive_Request.Token = [],
      Interactive_Request.ResponseURL = []\<rparr>"

definition body_bob :: string where
  "body_bob = ''payload=%7B%22type%22%3A%22dialog_submission%22%2C%22submission%22%3A%7B%22who%22%3A%22Bob%22%2C%22title%22%3A%22Shipped+feature%22%2C%22description%22%3Anull%7D%2C%22user%22%3A%7B%22id%22%3A%22U1%22%2C%22name%22%3A%22carol%22%7D%7D''"

definition body_untitled :: string where
  "body_untitled = ''payload=%7B%22type%22%3A%22dialog_submission%22%2C%22submission%22%3A%7B%22who%22%3A%22Bob%22%2C%22title%22%3A%22%22%2C%22description%22%3Anull%7D%2C%22user%22%3A%7B%22id%22%3A%22U1%22%2C%22name%22%3A%22carol%22%7D%7D''"

definition example_request :: "string \<Rightarrow> string \<Rightarrow> Command_Request" where
  "example_request token text =
     \<lparr>Command_Request.Token = token, TeamID = ''T1'', TeamDomain = ''kano'',
      ChannelID = ''C1'', ChannelName = ''general'', Command_Request.UserID = ''U1'',
      Command_Request.UserName = ''carol'', Text = text,
      Command_Request.TriggerID = ''tr1'',
      Command_Request.ResponseURL = ''https://hooks.slack.com/commands/1''\<rparr>"

definition example_ParseQuery :: "string \<Rightarrow> string \<Rightarrow> string list" where
  "example_ParseQuery rawQuery k = map snd (filter (\<lambda>kv. fst kv = k)
     (if rawQuery = example_body ''secret'' ''Alice'' then example_form ''secret'' ''Alice''
      else if rawQuery = example_body ''guess'' ''Alice'' then example_form ''guess'' ''Alice''
      else if rawQuery = example_body ''secret'' ''Summary'' then example_form ''secret'' ''Summary''
      else if rawQuery = example_body ''secret'' ''+summary+''
        then example_form ''secret'' '' summary ''
      else if rawQuery = ''token=secret&text=Alice''
        then [(''token'', ''secret''), (''text'', ''Alice'')]
      else if rawQuery = body_bob then [(''payload'', payload_bob)]
      else if rawQuery = body_untitled then [(''payload'', payload_untitled)]
      else if rawQuery = ''payload=%7B'' then [(''payload'', ''{'')]
      else []))"

definition example_now :: Time where
  "example_now = 1541073600 * Second + 500000000"

definition example_win :: "string \<Rightarrow> int \<Rightarrow> Win" where
  "example_win who hours =
     \<lparr>Win.UserID = ''U1'', Win.UserName = ''carol'', Win.Who = who,
      Win.Title = ''Shipped feature'', Win.Description = ''Big WIN!'',
      Win.CreatedAt = example_now - hours * Hour,
      UpdatedAt = example_now - hours * Hour,
      TTL = Unix (example_now - hours * Hour) + 604800\<rparr>"

definition example_wins :: "Win list" where
  "example_wins = [example_win ''Ann'' 11, example_win ''Bob'' 12, example_win ''Cat'' 13]"

text \<open>A submission with a description of its own.\<close>

definition request_ann :: Interactive_Request where
  "request_ann =
     \<lparr>Interactive_Request.Type = ''dialog_submission'',
      Submission = \<lparr>submission.Who = ''Ann'', submission.Title = ''Green build'',
                     submission.Description = ''Fixed the flaky test''\<rparr>,
      Interactive_Request.CallbackID = ''submit-win'',
      User = \<lparr>ID = ''U1'', Name = ''carol''\<rparr>,
      ActionTS = [],
      Interactive_Request.Token = [],
      Interactive_Request.ResponseURL = []\<rparr>"

text \<open>The \<open>Win\<close>s that the examples write.\<close>

definition bob_win :: Win where
  "bob_win = \<lparr>Win.UserID = ''U1'', Win.UserName = ''carol'', Win.Who = ''Bob'',
     Win.Title = ''Shipped feature'', Win.Description = ''Big WIN!'',
     Win.CreatedAt = example_now, UpdatedAt = example_now, TTL = 1541678400\<rparr>"

definition untitled_win :: Win where
  "untitled_win = \<lparr>Win.UserID = ''U1'', Win.UserName = ''carol'', Win.Who = ''Bob'',
     Win.Title = [], Win.Description = ''Big WIN!'',
     Win.CreatedAt = example_now, UpdatedAt = example_now, TTL = 1541678400\<rparr>"

definition london_win :: Win where
  "london_win = \<lparr>Win.UserID = ''U1'', Win.UserName = ''carol'', Win.Who = ''Bob'',
     Win.Title = ''Shipped feature'', Win.Description = ''Big WIN!'',
     Win.CreatedAt = 1540468800 * Second, UpdatedAt = 1540468800 * Second,
     TTL = 1541077200\<rparr>"

definition ann_win :: Win where
  "ann_win = \<lparr>Win.UserID = ''U1'', Win.UserName = ''carol'', Win.Who = ''Ann'',
     Win.Title = ''Green build'', Win.Description = ''Fixed the flaky test'',
     Win.CreatedAt = example_now, UpdatedAt = example_now, TTL = 1541678400\<rparr>"

text \<open>The body that the summary of the example posts: \<open>json_encode_text\<close> of the banner, the
  count and the one row, joined by line feeds.\<close>

definition example_report :: string where
  "example_report =
     ''{text: ============================='' @ [CHR 0x0A] @
     '' Summary for last 7 days (TTL)'' @ [CHR 0x0A] @
     '' WINS count: 1'' @ [CHR 0x0A] @
     ''============================='' @ [CHR 0x0A] @
     [CHR 0x0A] @
     ''Cat}''"

definition UTC_lookup :: "int \<Rightarrow> zone" where
  "UTC_lookup s = \<lparr>offset = 0, zstart = - (2 ^ 63), zend = 2 ^ 63 - 1\<rparr>"

definition example_world :: world where
  "example_world =
     \<lparr>Getenv = example_env,
      Now = (\<lambda>k. example_now),
      Local_lookup = UTC_lookup,
      Format_RFC3339 = (\<lambda>t. if t = example_now - 13 * Hour then ''2018-10-31T23:00:00Z''
                              else ''2018-11-01T00:00:00Z''),
      url_Parse = (\<lambda>s. Inr (drop 1 s)),
      url_ParseQuery = example_ParseQuery,
      json_encode_Payload = (\<lambda>p. ''{trigger_id: '' @ Payload.TriggerID p @ ''}''),
      json_MarshalIndent = (\<lambda>rows. concat (map WinSummary.Who rows)),
      json_encode_text = (\<lambda>s. ''{text: '' @ s @ ''}''),
      json_Unmarshal = (\<lambda>s. if s = payload_bob then (request_bob, None)
                              else if s = payload_untitled then (request_untitled, None)
                              else (request_zero, Some ''unexpected end of JSON input'')),
      json_Decode_map = (\<lambda>s. None),
      json_Decode_status = (\<lambda>s. None),
      url_error = (\<lambda>u. None),
      client_Do = (\<lambda>req. Inr ''{ok: true}''),
      session_NewSession = (\<lambda>region. None),
      dynamodb_Scan = (\<lambda>table. Inr [[(''who'', ''Ann'')], [(''who'', ''Bob'')], [(''who'', ''Cat'')]]),
      UnmarshalListOfMaps = (\<lambda>items. (example_wins, None)),
      MarshalMap_error = (\<lambda>win. None),
      dynamodb_PutItem = (\<lambda>table win. None)\<rparr>"

text \<open>
  The same, run where \<open>time.Local\<close> is Europe/London: British Summer Time (one hour ahead)
  until 2018-10-28T01:00:00Z, Greenwich Mean Time after; the clock reads
  2018-10-25T12:00:00Z.
\<close>

definition London_lookup :: "int \<Rightarrow> zone" where
  "London_lookup s =
     (if s < 1540688400 then \<lparr>offset = 3600, zstart = 1521939600, zend = 1540688400\<rparr>
      else \<lparr>offset = 0, zstart = 1540688400, zend = 1553994000\<rparr>)"

definition London_world :: world where
  "London_world = example_world\<lparr>Now := (\<lambda>k. 1540468800 * Second),
     Local_lookup := London_lookup\<rparr>"

text \<open>The same, where the response URL answers the delivery with the plain text \<open>ok\<close>,
  which is not JSON.\<close>

definition plain_ok_world :: world where
  "plain_ok_world = example_world\<lparr>client_Do := (\<lambda>req. Inr ''ok''),
     json_Decode_map := (\<lambda>s. if s = ''ok''
       then Some ''invalid character 'o' looking for beginning of value'' else None),
     json_Decode_status := (\<lambda>s. if s = ''ok''
       then Some ''invalid character 'o' looking for beginning of value'' else None)\<rparr>"

text \<open>The same, where nothing outside the process can be reached.\<close>

definition offline_world :: world where
  "offline_world = example_world\<lparr>client_Do := (\<lambda>req. Inl ''dial tcp: i/o timeout''),
     dynamodb_Scan := (\<lambda>table. Inl ''RequestError: send request failed''),
     dynamodb_PutItem := (\<lambda>table win. Some ''RequestError: send request failed'')\<rparr>"

section \<open>Auxiliary facts\<close>

subsection \<open>Time, the store and the decoding of the form\<close>

lemma Unix_of_seconds: "Unix (x * Second + nsec t) = x"
  by (simp add: Unix_def nsec_def Second_def)

lemma Date_unix_fixed:
  assumes "\<forall>s. offset (Local_lookup w s) = c"
  shows "Date_unix w unix = unix - c"
  using assms by (simp add: Date_unix_def Let_def)

lemma written_PutItem:
  "written (snd (PutItem w request)) = [] \<or>
   written (snd (PutItem w request)) =
     [\<lparr>Win.UserID = ID (User request),
       Win.UserName = Name (User request),
       Win.Who = submission.Who (Submission request),
       Win.Title = submission.Title (Submission request),
       Win.Description = (if submission.Description (Submission request) = [] then ''Big WIN!''
          else submission.Description (Submission request)),
       Win.CreatedAt = Now w 0,
       UpdatedAt = Now w 0,
       TTL = Unix (AddDate_days w 7 (Now w 0))\<rparr>]"
  by (simp add: PutItem_def GetDB_def Let_def split: option.split)

lemma example_parse: "url_Parse example_world (''?'' @ b) = Inr b"
  by (simp add: example_world_def)

lemma example_decode:
  "decode_Request (url_ParseQuery example_world (example_body ''guess'' ''Alice'')) =
     Some (example_request ''guess'' ''Alice'')"
  "decode_Request (url_ParseQuery example_world (example_body ''secret'' ''Alice'')) =
     Some (example_request ''secret'' ''Alice'')"
  "decode_Request (url_ParseQuery example_world (example_body ''secret'' ''Summary'')) =
     Some (example_request ''secret'' ''Summary'')"
  "decode_Request (url_ParseQuery example_world (example_body ''secret'' ''+summary+'')) =
     Some (example_request ''secret'' '' summary '')"
  by (simp_all add: example_world_def example_ParseQuery_def example_body_def example_form_def
      example_request_def decode_Request_def index0_def)

lemma decode_Request_None:
  "decode_Request query = None \<longleftrightarrow> (\<exists>k \<in> set Command_fields. query k = [])"
  by (auto simp: decode_Request_def index0_def Command_fields_def
      split: list.splits Option.bind_splits)

lemma Handler_dialog_events:
  "snd (Handler_dialog w request) =
     [Do \<lparr>Method = ''POST'', URL = apiEndpoint, ContentType = ''application/json'',
          Authorization = ''Bearer '' @ Getenv w ''SLACK_ACCESS_TOKEN'',
          Content = json_encode_Payload w (dialog_Payload request)\<rparr>]"
  by (simp add: Handler_dialog_def json_Marshal_def http_NewRequest_def Let_def
      split: sum.split)

lemma getSummary_events:
  "\<exists>evs. snd (getSummary w request) = NewSession (Getenv w ''REGION'') # evs \<and>
     \<not> list_ex is_NewSession evs"
  by (simp add: getSummary_def GetWins_def GetDB_def Let_def
      split: option.split sum.split prod.split)

lemma ToLower_examples:
  "ToLower ''Alice'' \<noteq> ''summary''"
  "ToLower ''Summary'' = ''summary''"
  "ToLower '' summary '' \<noteq> ''summary''"
  "ToLower '' Summary'' \<noteq> ''summary''"
  by code_simp+

subsection \<open>Rounding to float64 and the threshold of twelve hours\<close>

text \<open>
  \<open>round_binary64\<close> is monotone and leaves every \<open>float64\<close> value alone. For any such
  rounding the four roundings of \<open>Hours\<close> keep the comparison with 12 where the exact
  number of nanoseconds puts it: twelve hours are a \<open>float64\<close>, and one nanosecond more is
  at least \<open>2^-42\<close> hours more, which the sum keeps.
\<close>

lemma rne_of_int: "rne (of_int n) = n"
  by (simp add: rne_def)

lemma rne_ge_floor: "\<lfloor>y\<rfloor> \<le> rne y"
  by (simp add: rne_def Let_def)

lemma rne_le_floor_Suc: "rne y \<le> \<lfloor>y\<rfloor> + 1"
  by (simp add: rne_def Let_def)

lemma rne_ge_int:
  assumes "of_int n \<le> y"
  shows "n \<le> rne y"
proof -
  have "n \<le> \<lfloor>y\<rfloor>" using assms by (simp add: le_floor_iff)
  then show ?thesis using rne_ge_floor [of y] by linarith
qed

lemma rne_le_int:
  assumes "y \<le> of_int n"
  shows "rne y \<le> n"
proof (cases "y = of_int n")
  case True
  then show ?thesis by (simp add: rne_of_int)
next
  case False
  with assms have "y < of_int n" by simp
  then have "\<lfloor>y\<rfloor> < n" by (simp add: floor_less_iff)
  then show ?thesis using rne_le_floor_Suc [of y] by linarith
qed

lemma rne_mono:
  assumes "y1 \<le> y2"
  shows "rne y1 \<le> rne y2"
proof (cases "\<lfloor>y1\<rfloor> = \<lfloor>y2\<rfloor>")
  case True
  then show ?thesis
    using assms by (auto simp: rne_def Let_def)
next
  case False
  moreover have "\<lfloor>y1\<rfloor> \<le> \<lfloor>y2\<rfloor>" using assms by (rule floor_mono)
  ultimately have "\<lfloor>y1\<rfloor> + 1 \<le> \<lfloor>y2\<rfloor>" by simp
  then show ?thesis
    using rne_le_floor_Suc [of y1] rne_ge_floor [of y2] by linarith
qed

lemma qexp_le: "qexp n z \<le> n"
  by (induction n) auto

lemma qexp_lower: "0 < qexp n z \<Longrightarrow> 2 ^ (qexp n z + 52) \<le> z"
  by (induction n) (auto split: if_splits)

lemma qexp_upper: "qexp n z < n \<Longrightarrow> z < 2 ^ (qexp n z + 53)"
proof (induction n)
  case 0
  then show ?case by simp
next
  case (Suc n)
  show ?case
  proof (cases "2 ^ (Suc n + 52) \<le> z")
    case True
    with Suc.prems show ?thesis by simp
  next
    case False
    then have q: "qexp (Suc n) z = qexp n z" by simp
    show ?thesis
    proof (cases "qexp n z < n")
      case True
      then show ?thesis using Suc.IH q by simp
    next
      case False
      then have "qexp n z = n" using qexp_le [of n z] by simp
      then show ?thesis using \<open>\<not> 2 ^ (Suc n + 52) \<le> z\<close> q
        by (simp add: not_le add.commute)
    qed
  qed
qed

lemma qexp_mono: "z1 \<le> z2 \<Longrightarrow> qexp n z1 \<le> qexp n z2"
proof (induction n)
  case 0
  then show ?case by simp
next
  case (Suc n)
  then show ?case
    using qexp_le [of n z1] by (auto simp: le_Suc_eq)
qed

lemma round_scaled_nonneg:
  assumes "0 \<le> z"
  shows "0 \<le> round_scaled z"
proof -
  have "(of_int 0 :: rat) \<le> z / 2 ^ qexp 2045 z" using assms by simp
  then have "0 \<le> rne (z / 2 ^ qexp 2045 z)" by (rule rne_ge_int)
  then show ?thesis by (simp add: round_scaled_def Let_def)
qed

lemma round_scaled_mono:
  assumes "z1 \<le> z2"
  shows "round_scaled z1 \<le> round_scaled z2"
proof -
  define j1 where "j1 = qexp 2045 z1"
  define j2 where "j2 = qexp 2045 z2"
  have r1: "round_scaled z1 = of_int (rne (z1 / 2 ^ j1)) * 2 ^ j1"
    and r2: "round_scaled z2 = of_int (rne (z2 / 2 ^ j2)) * 2 ^ j2"
    by (simp_all add: round_scaled_def j1_def j2_def Let_def)
  have le: "j1 \<le> j2" unfolding j1_def j2_def using assms by (rule qexp_mono)
  show ?thesis
  proof (cases "j1 = j2")
    case True
    have "z1 / 2 ^ j2 \<le> z2 / 2 ^ j2" using assms by (simp add: divide_right_mono)
    then have "rne (z1 / 2 ^ j2) \<le> rne (z2 / 2 ^ j2)" by (rule rne_mono)
    then have "(of_int (rne (z1 / 2 ^ j2)) :: rat) \<le> of_int (rne (z2 / 2 ^ j2))" by simp
    then show ?thesis unfolding r1 r2 True by (simp add: mult_right_mono)
  next
    case False
    with le have less: "j1 < j2" by simp
    have "j2 \<le> 2045" unfolding j2_def by (rule qexp_le)
    with less have "qexp 2045 z1 < 2045" unfolding j1_def by simp
    then have "z1 < 2 ^ (j1 + 53)" unfolding j1_def by (rule qexp_upper)
    then have "z1 / 2 ^ j1 \<le> 2 ^ 53"
      by (simp add: power_add field_simps)
    then have "z1 / 2 ^ j1 \<le> of_int (2 ^ 53)" by simp
    then have "rne (z1 / 2 ^ j1) \<le> 2 ^ 53" by (rule rne_le_int)
    then have "(of_int (rne (z1 / 2 ^ j1)) :: rat) \<le> of_int (2 ^ 53)"
      by (simp only: of_int_le_iff)
    then have "of_int (rne (z1 / 2 ^ j1)) * 2 ^ j1 \<le> (2 ^ 53 :: rat) * 2 ^ j1"
      by (simp add: mult_right_mono)
    then have up: "round_scaled z1 \<le> 2 ^ (j1 + 53)"
      unfolding r1 by (simp add: power_add mult.commute)
    have "0 < qexp 2045 z2" using less unfolding j2_def by simp
    then have "2 ^ (j2 + 52) \<le> z2" unfolding j2_def by (rule qexp_lower)
    then have "2 ^ 52 \<le> z2 / 2 ^ j2"
      by (simp add: power_add field_simps)
    then have "of_int (2 ^ 52) \<le> z2 / 2 ^ j2" by simp
    then have "2 ^ 52 \<le> rne (z2 / 2 ^ j2)" by (rule rne_ge_int)
    then have "(of_int (2 ^ 52) :: rat) \<le> of_int (rne (z2 / 2 ^ j2))"
      by (simp only: of_int_le_iff)
    then have "(2 ^ 52 :: rat) * 2 ^ j2 \<le> of_int (rne (z2 / 2 ^ j2)) * 2 ^ j2"
      by (simp add: mult_right_mono)
    then have low: "2 ^ (j2 + 52) \<le> round_scaled z2"
      unfolding r2 by (simp add: power_add mult.commute)
    have "j1 + 53 \<le> j2 + 52" using less by simp
    then have "(2 :: rat) ^ (j1 + 53) \<le> 2 ^ (j2 + 52)"
      by (rule power_increasing) simp
    with up low show ?thesis by linarith
  qed
qed

lemma round_scaled_exact:
  assumes "M < 2 ^ 53"
  shows "round_scaled (of_nat M * 2 ^ i) = of_nat M * 2 ^ i"
proof -
  define z :: rat where "z = of_nat M * 2 ^ i"
  define j where "j = qexp 2045 z"
  have "j \<le> i"
  proof (cases "j = 0")
    case True
    then show ?thesis by simp
  next
    case False
    then have "2 ^ (j + 52) \<le> z" unfolding j_def using qexp_lower [of 2045 z] by simp
    moreover have "z < 2 ^ 53 * 2 ^ i"
    proof -
      have "(of_nat M :: rat) < of_nat (2 ^ 53)" using assms by (simp only: of_nat_less_iff)
      then show ?thesis unfolding z_def by simp
    qed
    ultimately have "(2 :: rat) ^ (j + 52) < 2 ^ (53 + i)"
      by (simp add: power_add)
    then have "j + 52 < 53 + i" by (simp add: power_strict_increasing_iff)
    then show ?thesis by simp
  qed
  then obtain d where i: "i = j + d" using le_Suc_ex by blast
  have "z / 2 ^ j = of_int (int M * 2 ^ d)"
    unfolding z_def i by (simp add: power_add)
  then have "rne (z / 2 ^ j) = int M * 2 ^ d" by (simp only: rne_of_int)
  then have "round_scaled z = of_int (int M * 2 ^ d) * 2 ^ j"
    by (simp add: round_scaled_def j_def Let_def)
  also have "\<dots> = z" unfolding z_def i by (simp add: power_add)
  finally show ?thesis unfolding z_def .
qed

lemma round_binary64_exact:
  assumes "binary64 x"
  shows "round_binary64 x = x"
proof -
  obtain m :: int and k :: nat where m: "\<bar>m\<bar> < 2 ^ 53"
    and x: "(k \<le> 971 \<and> x = of_int m * 2 ^ k) \<or> (k \<le> 1074 \<and> x = of_int m / 2 ^ k)"
    using assms unfolding binary64_def by blast
  define M where "M = nat \<bar>m\<bar>"
  have M: "M < 2 ^ 53" using m unfolding M_def by (simp add: nat_less_iff)
  have absm: "(of_nat M :: rat) = \<bar>of_int m\<bar>" unfolding M_def by simp
  obtain i :: nat where scaled: "\<bar>x\<bar> * 2 ^ 1074 = of_nat M * 2 ^ i"
  proof -
    from x show ?thesis
    proof
      assume "k \<le> 971 \<and> x = of_int m * 2 ^ k"
      then have "\<bar>x\<bar> * 2 ^ 1074 = of_nat M * 2 ^ (k + 1074)"
        by (simp add: absm abs_mult power_add)
      then show ?thesis by (rule that)
    next
      assume a: "k \<le> 1074 \<and> x = of_int m / 2 ^ k"
      then obtain d where d: "1074 = k + d" using le_Suc_ex by blast
      have "\<bar>x\<bar> * 2 ^ 1074 = \<bar>of_int m\<bar> / 2 ^ k * 2 ^ (k + d)"
        using a d by (simp add: abs_divide)
      also have "\<dots> = of_nat M * 2 ^ d"
        by (simp add: absm power_add)
      finally show ?thesis by (rule that)
    qed
  qed
  have r: "round_scaled (\<bar>x\<bar> * 2 ^ 1074) = \<bar>x\<bar> * 2 ^ 1074"
    unfolding scaled using M by (rule round_scaled_exact)
  show ?thesis
  proof (cases "x < 0")
    case True
    then have "- x * 2 ^ 1074 = \<bar>x\<bar> * 2 ^ 1074" by simp
    then show ?thesis using True r by (simp add: round_binary64_def)
  next
    case False
    then have "x * 2 ^ 1074 = \<bar>x\<bar> * 2 ^ 1074" by simp
    then show ?thesis using False r by (simp add: round_binary64_def)
  qed
qed

lemma round_binary64_mono:
  assumes "x \<le> y"
  shows "round_binary64 x \<le> round_binary64 y"
proof (cases "x < 0")
  case True
  note xneg = True
  show ?thesis
  proof (cases "y < 0")
    case True
    have "- y * 2 ^ 1074 \<le> - x * 2 ^ 1074" using assms by simp
    then have "round_scaled (- y * 2 ^ 1074) \<le> round_scaled (- x * 2 ^ 1074)"
      by (rule round_scaled_mono)
    then show ?thesis using xneg True by (simp add: round_binary64_def divide_right_mono)
  next
    case False
    have "0 \<le> round_scaled (- x * 2 ^ 1074)"
      using xneg by (intro round_scaled_nonneg) simp
    moreover have "0 \<le> round_scaled (y * 2 ^ 1074)"
      using False by (intro round_scaled_nonneg) simp
    ultimately show ?thesis using xneg False by (simp add: round_binary64_def)
  qed
next
  case False
  then have "\<not> y < 0" using assms by simp
  have "x * 2 ^ 1074 \<le> y * 2 ^ 1074" using assms by simp
  then have "round_scaled (x * 2 ^ 1074) \<le> round_scaled (y * 2 ^ 1074)"
    by (rule round_scaled_mono)
  then show ?thesis
    using False \<open>\<not> y < 0\<close> by (simp add: round_binary64_def divide_right_mono)
qed

lemma float64_rounding_round_binary64: "float64_rounding round_binary64"
  unfolding float64_rounding_def
  using round_binary64_mono round_binary64_exact by blast

lemma binary64_zero: "binary64 0"
  unfolding binary64_def by (rule exI[of _ 0], rule exI[of _ 0]) simp

lemma binary64_of_int: "\<bar>m\<bar> < 2 ^ 53 \<Longrightarrow> binary64 (of_int m)"
  unfolding binary64_def by (rule exI[of _ m], rule exI[of _ 0]) simp

lemma binary64_small: "binary64 (1 / 2 ^ 42)"
  unfolding binary64_def by (rule exI[of _ 1], rule exI[of _ 42]) simp

lemma binary64_above_12: "binary64 (12 + 1 / 2 ^ 49)"
  unfolding binary64_def
  by (rule exI[of _ "12 * 2 ^ 49 + 1"], rule exI[of _ 49]) (simp add: field_simps)

lemma sdiv_smod_nonneg:
  fixes d :: int
  assumes "0 \<le> d" "0 < h"
  shows "d sdiv h = d div h" "d smod h = d mod h"
  using assms by (simp_all add: signed_divide_int_def signed_modulo_int_def sgn_if)

lemma sdiv_smod_neg:
  fixes d :: int
  assumes "d < 0" "0 < h"
  shows "d sdiv h \<le> 0" "d smod h \<le> 0"
  using assms by (simp_all add: signed_divide_int_def signed_modulo_int_def sgn_if pos_imp_zdiv_nonneg_iff)

lemma hours_threshold:
  assumes fl: "float64_rounding fl"
  shows "12 < fl (fl (of_int (d sdiv Hour)) + fl (fl (of_int (d smod Hour)) / 3600000000000))
    \<longleftrightarrow> 12 * Hour < d"
proof -
  have mono: "\<And>x y. x \<le> y \<Longrightarrow> fl x \<le> fl y"
    and exact: "\<And>x. binary64 x \<Longrightarrow> fl x = x"
    using fl by (auto simp: float64_rounding_def)
  have fl_int: "fl (of_int n) = of_int n" if "\<bar>n\<bar> < 2 ^ 53" for n
    using exact [OF binary64_of_int [OF that]] .
  have fl0: "fl 0 = 0" using fl_int [of 0] by simp
  have fl1: "fl 1 = 1" using fl_int [of 1] by simp
  have fl11: "fl 11 = 11" using fl_int [of 11] by simp
  have fl12: "fl 12 = 12" using fl_int [of 12] by simp
  have fl13: "fl 13 = 13" using fl_int [of 13] by simp
  have H: "Hour = 3600000000000" by (simp add: Hour_def Second_def)
  have flH: "fl 3599999999999 = 3599999999999" using fl_int [of 3599999999999] by simp
  define q where "q = d sdiv Hour"
  define r where "r = d smod Hour"
  define qf where "qf = fl (of_int q)"
  define frac where "frac = fl (fl (of_int r) / 3600000000000)"
  have goal: "?thesis \<longleftrightarrow> (12 < fl (qf + frac) \<longleftrightarrow> 12 * Hour < d)"
    by (simp add: q_def r_def qf_def frac_def)
  have le12: "fl x \<le> 12" if "x \<le> 12" for x
    using mono [OF that] fl12 by simp
  have gt12: "12 < fl x" if "12 + 1 / 2 ^ 49 \<le> x" for x
  proof -
    have "fl (12 + 1 / 2 ^ 49) \<le> fl x" using that by (rule mono)
    then have "12 + 1 / 2 ^ 49 \<le> fl x" using exact [OF binary64_above_12] by simp
    then show ?thesis by simp
  qed
  show ?thesis
  proof (cases "d < 0")
    case True
    have "q \<le> 0" "r \<le> 0"
      unfolding q_def r_def using sdiv_smod_neg [OF True, of Hour] H by simp_all
    then have "(of_int q :: rat) \<le> 0" "(of_int r :: rat) \<le> 0" by simp_all
    then have "qf \<le> 0" "fl (of_int r) \<le> 0"
      unfolding qf_def using mono fl0 by metis+
    then have "fl (of_int r) / 3600000000000 \<le> 0" by (simp add: divide_le_0_iff)
    then have "frac \<le> 0" unfolding frac_def using mono fl0 by metis
    with \<open>qf \<le> 0\<close> have "qf + frac \<le> 12" by linarith
    then have "fl (qf + frac) \<le> 12" by (rule le12)
    then show ?thesis unfolding goal using True H by simp
  next
    case False
    then have nn: "0 \<le> d" by simp
    have qr: "q = d div Hour" "r = d mod Hour"
      unfolding q_def r_def using sdiv_smod_nonneg [OF nn, of Hour] H by simp_all
    have d: "d = q * Hour + r" by (simp add: qr)
    have r: "0 \<le> r" "r < Hour" using H by (simp_all add: qr)
    have rf0: "0 \<le> fl (of_int r)"
    proof -
      have "(0 :: rat) \<le> of_int r" using r by simp
      then show ?thesis using mono fl0 by metis
    qed
    have rfH: "fl (of_int r) \<le> 3599999999999"
    proof -
      have "r \<le> 3599999999999" using r H by simp
      then have "(of_int r :: rat) \<le> 3599999999999" by linarith
      then show ?thesis using mono flH by metis
    qed
    have frac0: "0 \<le> frac"
    proof -
      have "0 \<le> fl (of_int r) / 3600000000000" using rf0 by simp
      then show ?thesis unfolding frac_def using mono fl0 by metis
    qed
    have frac1: "frac \<le> 1"
    proof -
      have "fl (of_int r) / 3600000000000 \<le> 1" using rfH by simp
      then show ?thesis unfolding frac_def using mono fl1 by metis
    qed
    show ?thesis
    proof (cases "12 * Hour < d")
      case True
      have "12 + 1 / 2 ^ 49 \<le> qf + frac"
      proof (cases "13 \<le> q")
        case True
        then have "(13 :: rat) \<le> of_int q" by linarith
        then have "13 \<le> qf" unfolding qf_def using mono fl13 by metis
        then show ?thesis using frac0 by simp
      next
        case False
        have "12 \<le> q"
        proof (rule ccontr)
          assume "\<not> 12 \<le> q"
          then have "q \<le> 11" by simp
          then show False using \<open>12 * Hour < d\<close> d r unfolding H by linarith
        qed
        with False have q12: "q = 12" by simp
        then have qf: "qf = 12" unfolding qf_def using fl12 by simp
        have "1 \<le> r" using True d q12 unfolding H by linarith
        then have "(1 :: rat) \<le> of_int r" by linarith
        then have "1 \<le> fl (of_int r)" using mono fl1 by metis
        then have "1 / 2 ^ 42 \<le> fl (of_int r) / 3600000000000"
          by (simp add: field_simps)
        then have "fl (1 / 2 ^ 42) \<le> frac" unfolding frac_def by (rule mono)
        then have "1 / 2 ^ 42 \<le> frac" using exact [OF binary64_small] by simp
        then show ?thesis using qf by simp
      qed
      then have "12 < fl (qf + frac)" by (rule gt12)
      then show ?thesis unfolding goal using True by simp
    next
      case False
      have "qf + frac \<le> 12"
      proof (cases "q \<le> 11")
        case True
        then have "(of_int q :: rat) \<le> 11" by linarith
        then have "qf \<le> 11" unfolding qf_def using mono fl11 by metis
        then show ?thesis using frac1 by simp
      next
        case F: False
        then have "12 \<le> q" by simp
        then have "q = 12" "r = 0" using False d r unfolding H by linarith+
        then have "qf = 12" "frac = 0" unfolding qf_def frac_def using fl12 fl0 by simp_all
        then show ?thesis by simp
      qed
      then have "fl (qf + frac) \<le> 12" by (rule le12)
      then show ?thesis unfolding goal using False by simp
    qed
  qed
qed

lemma Hours_gt_12: "12 < Hours d \<longleftrightarrow> 12 * Hour < d"
  using hours_threshold [OF float64_rounding_round_binary64, of d]
  by (simp add: Hours_def float64_of_int_def Let_def)

subsection \<open>The loop of the summary and the example worlds\<close>

lemma Sub_gt_12:
  "12 * Hour < Sub t u \<longleftrightarrow> 12 * Hour < t - u"
  by (simp add: Sub_def Let_def Hour_def Second_def minDuration_def maxDuration_def)

lemma getSummary_loop_filter:
  "getSummary_loop w k wins acc = acc @ map (summary_row w) (map fst
     (filter (\<lambda>(win, i). 12 * Hour < Now w i - Win.CreatedAt win)
        (zip wins [k..<k + length wins])))"
proof (induction wins arbitrary: k acc)
  case Nil
  then show ?case by simp
next
  case (Cons win wins)
  have "[k..<k + length (win # wins)] = k # [Suc k..<k + length (win # wins)]"
    by (rule upt_conv_Cons) simp
  then have upt: "[k..<k + length (win # wins)] = k # [Suc k..<Suc k + length wins]"
    by simp
  show ?case
    unfolding upt
    by (simp add: Cons.IH Hours_gt_12 Sub_gt_12)
qed

lemma example_PutItem_bob:
  "PutItem example_world request_bob =
     (None, [NewSession ''eu-west-1'', PutItemInput ''wins'' bob_win])"
  by (simp add: PutItem_def GetDB_def example_world_def example_env_def request_bob_def
      bob_win_def Let_def AddDate_days_def abs_sec_def Date_unix_def UTC_lookup_def
      Unix_def nsec_def Second_def example_now_def)

lemma example_token:
  "Command_Request.Token (example_request ''secret'' t) =
     Getenv example_world ''SLACK_VERIFICATION_TOKEN''"
  by (simp add: example_request_def example_world_def example_env_def)

lemma example_dialog:
  "Handler_dialog example_world (example_request ''secret'' t) =
     (None, [Do \<lparr>Method = ''POST'', URL = ''https://slack.com/api/dialog.open'',
          ContentType = ''application/json'', Authorization = ''Bearer xoxb-1'',
          Content = ''{trigger_id: tr1}''\<rparr>])"
  by (simp add: Handler_dialog_def json_Marshal_def http_NewRequest_def apiEndpoint_def
      Let_def dialog_Payload_def example_world_def example_env_def example_request_def)

lemma getSummary_error:
  "snd (fst (getSummary w request)) =
     (case snd (fst (GetWins w)) of
        Some err \<Rightarrow> Some err
      | None \<Rightarrow>
          (case http_NewRequest w ''POST'' (Command_Request.ResponseURL request) of
             Some err \<Rightarrow> Some err
           | None \<Rightarrow>
               (case client_Do w (summary_request w request (fst (fst (GetWins w)))) of
                  Inl err \<Rightarrow> Some err
                | Inr respBody \<Rightarrow> json_Decode_map w respBody)))"
  by (simp add: getSummary_def Let_def split: prod.split option.split sum.split)

lemma world_parse:
  "url_Parse offline_world (''?'' @ b) = Inr b"
  "url_Parse plain_ok_world (''?'' @ b) = Inr b"
  by (simp_all add: offline_world_def plain_ok_world_def example_world_def)

lemma world_decode:
  "decode_Request (url_ParseQuery offline_world (example_body ''secret'' ''Summary'')) =
     Some (example_request ''secret'' ''Summary'')"
  "decode_Request (url_ParseQuery plain_ok_world (example_body ''secret'' ''Summary'')) =
     Some (example_request ''secret'' ''Summary'')"
  using example_decode(3)
  by (simp_all add: offline_world_def plain_ok_world_def example_world_def)

lemma world_token:
  "Command_Request.Token (example_request ''secret'' t) =
     Getenv offline_world ''SLACK_VERIFICATION_TOKEN''"
  "Command_Request.Token (example_request ''secret'' t) =
     Getenv plain_ok_world ''SLACK_VERIFICATION_TOKEN''"
  by (simp_all add: example_request_def offline_world_def plain_ok_world_def example_world_def
      example_env_def)

lemma Summary_route: "ToLower (Text (example_request ''secret'' ''Summary'')) = ''summary''"
  by (simp add: example_request_def ToLower_examples)

lemma digit_one: "char_of (49 :: nat) = CHR ''1''"
  by code_simp

lemma example_TTL: "Unix (AddDate_days example_world 7 (Now example_world 0)) = 1541678400"
  by (simp add: example_world_def AddDate_days_def abs_sec_def Date_unix_def UTC_lookup_def
      Unix_def nsec_def Second_def example_now_def Let_def)

section \<open>Properties of the handlers\<close>

subsection \<open>Command Intake: the token\<close>

text \<open>
  C1. A slash command whose form decodes to a request with a token other than
  \<open>SLACK_VERIFICATION_TOKEN\<close> is answered with status 400 and the body
  \<open>KanowinsCommand submitting - error: invalid verification token\<close>, and the handler makes
  no call at all: no session, no scan, no delivery POST and no dialog-open call.
\<close>

theorem C1_invalid_token_rejected:
  assumes "url_Parse w (''?'' @ body) = Inr rawQuery"
    and "decode_Request (url_ParseQuery w rawQuery) = Some request"
    and "Command_Request.Token request \<noteq> Getenv w ''SLACK_VERIFICATION_TOKEN''"
  shows "Command_Handler w body =
    (Returned \<lparr>StatusCode = 400, IsBase64Encoded = False,
       Body = ''KanowinsCommand submitting - error: invalid verification token'',
       Headers = [''Content-Type'' \<mapsto> ''application/json'']\<rparr>
       (Some ''invalid verification token''), [])"
  using assms by (simp add: Command_Handler_def handler_Command_def json_headers_def Let_def)

text \<open>The request of the example with the token \<open>guess\<close>, where the secret is \<open>secret\<close>.\<close>

theorem C1_invalid_token_rejected_witness:
  "Command_Request.Token (example_request ''guess'' ''Alice'') \<noteq>
     Getenv example_world ''SLACK_VERIFICATION_TOKEN'' \<and>
   Command_Handler example_world (example_body ''guess'' ''Alice'') =
    (Returned \<lparr>StatusCode = 400, IsBase64Encoded = False,
       Body = ''KanowinsCommand submitting - error: invalid verification token'',
       Headers = [''Content-Type'' \<mapsto> ''application/json'']\<rparr>
       (Some ''invalid verification token''), [])"
proof -
  have token: "Command_Request.Token (example_request ''guess'' ''Alice'') \<noteq>
      Getenv example_world ''SLACK_VERIFICATION_TOKEN''"
    by (simp add: example_request_def example_world_def example_env_def)
  show ?thesis
    using token C1_invalid_token_rejected [OF example_parse example_decode(1) token] by simp
qed

subsection \<open>Summary Aggregator\<close>

text \<open>
  C2. The rows of the report are the \<open>Win\<close>s of the scan, in order, whose age exceeds twelve
  hours: the \<open>Win\<close> at position \<open>i\<close> is kept exactly when the \<open>i\<close>-th reading of the clock
  minus its \<open>created_at\<close> is more than \<open>12 * Hour\<close> nanoseconds. The age is the exact
  difference: neither the saturation of \<open>Sub\<close> nor the four roundings of \<open>Hours\<close> move the
  threshold. The request that delivers the report carries, as \<open>text\<close>, the banner, the line
  \<open>WINS count:\<close> with the number of the \<open>Win\<close>s kept, and the indented JSON of one row
  (who, title, description, the first nineteen bytes of the creation time) for each \<open>Win\<close>
  kept and for no other, joined by line feeds. When the store is read and the request is
  built, that request is the one call \<open>getSummary\<close> adds to those of the read.
\<close>

theorem C2_summary_keeps_older_than_12h:
  "getSummary_loop w 0 wins [] = map (summary_row w) (older_than_12h w wins) \<and>
   summary_request w request wins =
     \<lparr>Method = ''POST'',
      URL = Command_Request.ResponseURL request,
      ContentType = ''application/json'',
      Authorization = ''Bearer '' @ Getenv w ''SLACK_ACCESS_TOKEN'',
      Content = json_encode_text w (Join
        [''============================='',
         '' Summary for last 7 days (TTL)'',
         '' WINS count: '' @ itoa (length (older_than_12h w wins)),
         ''============================='',
         [],
         json_MarshalIndent w
           (map (\<lambda>win. \<lparr>WinSummary.Who = Win.Who win,
                        WinSummary.Title = Win.Title win,
                        WinSummary.Description = Win.Description win,
                        WinSummary.CreatedAt = take 19 (Format_RFC3339 w (Win.CreatedAt win))\<rparr>)
              (older_than_12h w wins))]
        [CHR 0x0A])\<rparr> \<and>
   (GetWins w = ((wins, None), evs) \<and>
    http_NewRequest w ''POST'' (Command_Request.ResponseURL request) = None \<longrightarrow>
      snd (getSummary w request) = evs @ [Do (summary_request w request wins)])"
proof -
  have rows: "getSummary_loop w 0 wins [] = map (summary_row w) (older_than_12h w wins)"
    using getSummary_loop_filter [of w 0 wins "[]"] by (simp add: older_than_12h_def)
  have same: "map (summary_row w) xs =
      map (\<lambda>win. \<lparr>WinSummary.Who = Win.Who win,
                        WinSummary.Title = Win.Title win,
                        WinSummary.Description = Win.Description win,
                        WinSummary.CreatedAt = take 19 (Format_RFC3339 w (Win.CreatedAt win))\<rparr>) xs"
    for xs by (simp add: summary_row_def)
  have req: "summary_request w request wins =
     \<lparr>Method = ''POST'',
      URL = Command_Request.ResponseURL request,
      ContentType = ''application/json'',
      Authorization = ''Bearer '' @ Getenv w ''SLACK_ACCESS_TOKEN'',
      Content = json_encode_text w (Join
        [''============================='',
         '' Summary for last 7 days (TTL)'',
         '' WINS count: '' @ itoa (length (older_than_12h w wins)),
         ''============================='',
         [],
         json_MarshalIndent w
           (map (\<lambda>win. \<lparr>WinSummary.Who = Win.Who win,
                        WinSummary.Title = Win.Title win,
                        WinSummary.Description = Win.Description win,
                        WinSummary.CreatedAt = take 19 (Format_RFC3339 w (Win.CreatedAt win))\<rparr>)
              (older_than_12h w wins))]
        [CHR 0x0A])\<rparr>"
    unfolding summary_request_def Let_def summaryText_def rows same [symmetric]
    by simp
  have post: "GetWins w = ((wins, None), evs) \<and>
    http_NewRequest w ''POST'' (Command_Request.ResponseURL request) = None \<longrightarrow>
      snd (getSummary w request) = evs @ [Do (summary_request w request wins)]"
    by (simp add: getSummary_def Let_def split: sum.split)
  from rows req post show ?thesis by blast
qed

text \<open>
  Three \<open>Win\<close>s aged eleven, twelve and thirteen hours: only the last is among the rows, and
  the body posted to the callback URL counts one \<open>Win\<close> and lists that one.
\<close>

theorem C2_summary_keeps_older_than_12h_witness:
  "map (\<lambda>win. Now example_world 0 - Win.CreatedAt win) example_wins =
     [11 * Hour, 12 * Hour, 13 * Hour] \<and>
   older_than_12h example_world example_wins = [example_win ''Cat'' 13] \<and>
   getSummary_loop example_world 0 example_wins [] =
     [\<lparr>WinSummary.Who = ''Cat'', WinSummary.Title = ''Shipped feature'',
       WinSummary.Description = ''Big WIN!'', WinSummary.CreatedAt = ''2018-10-31T23:00:00''\<rparr>] \<and>
   json_MarshalIndent example_world
     [\<lparr>WinSummary.Who = ''Cat'', WinSummary.Title = ''Shipped feature'',
       WinSummary.Description = ''Big WIN!'', WinSummary.CreatedAt = ''2018-10-31T23:00:00''\<rparr>] = ''Cat'' \<and>
   snd (getSummary example_world (example_request ''secret'' ''Summary'')) =
     [NewSession ''eu-west-1'', ScanInput ''wins'',
      Do \<lparr>Method = ''POST'', URL = ''https://hooks.slack.com/commands/1'',
          ContentType = ''application/json'', Authorization = ''Bearer xoxb-1'',
          Content = example_report\<rparr>]"
proof -
  have ages: "map (\<lambda>win. Now example_world 0 - Win.CreatedAt win) example_wins =
     [11 * Hour, 12 * Hour, 13 * Hour]"
    by (simp add: example_world_def example_wins_def example_win_def)
  have kept: "older_than_12h example_world example_wins = [example_win ''Cat'' 13]"
    by (simp add: older_than_12h_def example_wins_def example_win_def example_world_def
        Hour_def Second_def upt_conv_Cons)
  have wins: "GetWins example_world =
     ((example_wins, None), [NewSession ''eu-west-1'', ScanInput ''wins''])"
    by (simp add: GetWins_def GetDB_def example_world_def example_env_def Let_def)
  have new: "http_NewRequest example_world ''POST''
      (Command_Request.ResponseURL (example_request ''secret'' ''Summary'')) = None"
    by (simp add: http_NewRequest_def example_world_def)
  note inst = C2_summary_keeps_older_than_12h [of example_world example_wins "example_request ''secret'' ''Summary''"
      "[NewSession ''eu-west-1'', ScanInput ''wins'']"]
  have row: "summary_row example_world (example_win ''Cat'' 13) =
      \<lparr>WinSummary.Who = ''Cat'', WinSummary.Title = ''Shipped feature'',
       WinSummary.Description = ''Big WIN!'', WinSummary.CreatedAt = ''2018-10-31T23:00:00''\<rparr>"
    by (simp add: summary_row_def example_win_def example_world_def)
  have "getSummary_loop example_world 0 example_wins [] =
      [summary_row example_world (example_win ''Cat'' 13)]"
    using inst kept by simp
  then have rows: "getSummary_loop example_world 0 example_wins [] =
     [\<lparr>WinSummary.Who = ''Cat'', WinSummary.Title = ''Shipped feature'',
       WinSummary.Description = ''Big WIN!'', WinSummary.CreatedAt = ''2018-10-31T23:00:00''\<rparr>]"
    using row by simp
  have marshal: "json_MarshalIndent example_world
     [\<lparr>WinSummary.Who = ''Cat'', WinSummary.Title = ''Shipped feature'',
       WinSummary.Description = ''Big WIN!'', WinSummary.CreatedAt = ''2018-10-31T23:00:00''\<rparr>] = ''Cat''"
    by (simp add: example_world_def)
  have encode: "json_encode_text example_world s = ''{text: '' @ s @ ''}''" for s
    by (simp add: example_world_def)
  have token: "Getenv example_world ''SLACK_ACCESS_TOKEN'' = ''xoxb-1''"
    by (simp add: example_world_def example_env_def)
  have url: "Command_Request.ResponseURL (example_request ''secret'' ''Summary'') =
      ''https://hooks.slack.com/commands/1''"
    by (simp add: example_request_def)
  have "summary_request example_world (example_request ''secret'' ''Summary'') example_wins =
     \<lparr>Method = ''POST'',
      URL = Command_Request.ResponseURL (example_request ''secret'' ''Summary''),
      ContentType = ''application/json'',
      Authorization = ''Bearer '' @ Getenv example_world ''SLACK_ACCESS_TOKEN'',
      Content = json_encode_text example_world (Join
        [''============================='',
         '' Summary for last 7 days (TTL)'',
         '' WINS count: '' @ itoa (length [example_win ''Cat'' 13]),
         ''============================='',
         [],
         json_MarshalIndent example_world [summary_row example_world (example_win ''Cat'' 13)]]
        [CHR 0x0A])\<rparr>"
    using inst kept by (simp add: summary_row_def)
  then have req: "summary_request example_world (example_request ''secret'' ''Summary'')
      example_wins =
     \<lparr>Method = ''POST'', URL = ''https://hooks.slack.com/commands/1'',
          ContentType = ''application/json'', Authorization = ''Bearer xoxb-1'',
          Content = example_report\<rparr>"
    unfolding row marshal encode token url
    by (simp add: digit_one example_report_def)
  have "snd (getSummary example_world (example_request ''secret'' ''Summary'')) =
     [NewSession ''eu-west-1'', ScanInput ''wins'',
      Do (summary_request example_world (example_request ''secret'' ''Summary'') example_wins)]"
    using inst wins new by simp
  then show ?thesis
    using ages kept rows marshal req by simp
qed

subsection \<open>Dialog Capture\<close>

text \<open>
  C3, as amended. Where the local time zone keeps one offset from UTC (as UTC does), every
  \<open>Win\<close> that \<open>PutItem\<close> writes has a \<open>TTL\<close>, in whole Unix seconds, of the Unix second of
  \<open>updated_at\<close> plus 604800.
\<close>

theorem C3_ttl_seven_days_fixed_offset:
  assumes "\<forall>s. offset (Local_lookup w s) = c"
    and "win \<in> set (written (snd (PutItem w request)))"
  shows "TTL win = Unix (UpdatedAt win) + 604800"
proof -
  have "Unix (AddDate_days w 7 (Now w 0)) = Unix (Now w 0) + 604800"
    unfolding AddDate_days_def Unix_of_seconds
    by (simp add: Date_unix_fixed [OF assms(1)] abs_sec_def assms(1))
  then show ?thesis
    using assms(2) written_PutItem [of w request] by auto
qed

text \<open>
  The submission of the example, written in UTC.
\<close>

theorem C3_ttl_seven_days_fixed_offset_witness:
  "(\<forall>s. offset (Local_lookup example_world s) = 0) \<and>
   written (snd (PutItem example_world request_bob)) = [bob_win] \<and>
   Unix (UpdatedAt bob_win) = 1541073600 \<and>
   TTL bob_win = 1541073600 + 604800"
proof -
  have utc: "\<forall>s. offset (Local_lookup example_world s) = 0"
    by (simp add: example_world_def UTC_lookup_def)
  have w: "written (snd (PutItem example_world request_bob)) = [bob_win]"
    by (simp add: example_PutItem_bob)
  then have "bob_win \<in> set (written (snd (PutItem example_world request_bob)))"
    by simp
  from C3_ttl_seven_days_fixed_offset [OF utc this] utc w show ?thesis
    by (simp add: bob_win_def Unix_def example_now_def Second_def)
qed

text \<open>
  C3 as stated fails where the offset changes within the week: \<open>AddDate(0, 0, 7)\<close> moves the
  wall clock by seven days. Written in London on 2018-10-25T12:00:00Z, three days before the
  clocks go back, the \<open>Win\<close> expires 608400 seconds after \<open>updated_at\<close>. And in UTC the
  \<open>TTL\<close> is a whole second: written half a second past 12:00:00, the \<open>Win\<close> expires
  604799.5 seconds after \<open>updated_at\<close>.
\<close>

theorem C3_counterexample_london:
  "written (snd (PutItem London_world request_bob)) = [london_win] \<and>
   Unix (UpdatedAt london_win) = 1540468800 \<and>
   TTL london_win = 1540468800 + 604800 + 3600 \<and>
   TTL london_win \<noteq> Unix (UpdatedAt london_win) + 604800 \<and>
   written (snd (PutItem example_world request_bob)) = [bob_win] \<and>
   TTL bob_win * Second + 500000000 = UpdatedAt bob_win + 604800 * Second \<and>
   TTL bob_win * Second \<noteq> UpdatedAt bob_win + 604800 * Second"
proof -
  have london: "written (snd (PutItem London_world request_bob)) = [london_win]"
    by (simp add: PutItem_def GetDB_def London_world_def example_world_def example_env_def
      request_bob_def london_win_def Let_def AddDate_days_def abs_sec_def Date_unix_def
      London_lookup_def Unix_def nsec_def Second_def)
  have utc: "written (snd (PutItem example_world request_bob)) = [bob_win]"
    by (simp add: example_PutItem_bob)
  show ?thesis
    using london utc
    by (simp add: london_win_def bob_win_def Unix_def Second_def example_now_def)
qed

text \<open>
  C4. Every \<open>Win\<close> that \<open>PutItem\<close> writes has the description \<open>Big WIN!\<close> when the
  submitted description is empty, and the submitted description otherwise. And \<open>PutItem\<close>
  does write: when the session opens and the item marshals, its calls are the session and
  one \<open>srv.PutItem\<close> of the \<open>Win\<close> built from the submission, with that description, and
  its result is the result of that call.
\<close>

theorem C4_description_placeholder:
  "(\<forall>win \<in> set (written (snd (PutItem w request))).
      Win.Description win =
        (if submission.Description (Submission request) = [] then ''Big WIN!''
         else submission.Description (Submission request))) \<and>
   (let win = \<lparr>Win.UserID = ID (User request),
                Win.UserName = Name (User request),
                Win.Who = submission.Who (Submission request),
                Win.Title = submission.Title (Submission request),
                Win.Description =
                  (if submission.Description (Submission request) = [] then ''Big WIN!''
                   else submission.Description (Submission request)),
                Win.CreatedAt = Now w 0,
                UpdatedAt = Now w 0,
                TTL = Unix (AddDate_days w 7 (Now w 0))\<rparr>
    in session_NewSession w (Getenv w ''REGION'') = None \<and> MarshalMap_error w win = None \<longrightarrow>
         PutItem w request =
           (dynamodb_PutItem w (Getenv w ''TABLE_NAME'') win,
            [NewSession (Getenv w ''REGION''), PutItemInput (Getenv w ''TABLE_NAME'') win]))"
proof
  show "\<forall>win \<in> set (written (snd (PutItem w request))).
      Win.Description win =
        (if submission.Description (Submission request) = [] then ''Big WIN!''
         else submission.Description (Submission request))"
    using written_PutItem [of w request] by auto
next
  show "let win = \<lparr>Win.UserID = ID (User request),
                Win.UserName = Name (User request),
                Win.Who = submission.Who (Submission request),
                Win.Title = submission.Title (Submission request),
                Win.Description =
                  (if submission.Description (Submission request) = [] then ''Big WIN!''
                   else submission.Description (Submission request)),
                Win.CreatedAt = Now w 0,
                UpdatedAt = Now w 0,
                TTL = Unix (AddDate_days w 7 (Now w 0))\<rparr>
    in session_NewSession w (Getenv w ''REGION'') = None \<and> MarshalMap_error w win = None \<longrightarrow>
         PutItem w request =
           (dynamodb_PutItem w (Getenv w ''TABLE_NAME'') win,
            [NewSession (Getenv w ''REGION''), PutItemInput (Getenv w ''TABLE_NAME'') win])"
    by (simp add: PutItem_def GetDB_def Let_def)
qed

text \<open>
  The submission of Bob with the title \<open>Shipped feature\<close> and no description, and the
  submission of Ann with a description of its own.
\<close>

theorem C4_description_placeholder_witness:
  "submission.Description (Submission request_bob) = [] \<and>
   PutItem example_world request_bob =
     (None, [NewSession ''eu-west-1'', PutItemInput ''wins'' bob_win]) \<and>
   Win.Who bob_win = ''Bob'' \<and> Win.Title bob_win = ''Shipped feature'' \<and>
   Win.Description bob_win = ''Big WIN!'' \<and>
   submission.Description (Submission request_ann) = ''Fixed the flaky test'' \<and>
   PutItem example_world request_ann =
     (None, [NewSession ''eu-west-1'', PutItemInput ''wins'' ann_win]) \<and>
   Win.Description ann_win = ''Fixed the flaky test''"
proof -
  have ok: "session_NewSession example_world (Getenv example_world ''REGION'') = None"
    "MarshalMap_error example_world win = None"
    "dynamodb_PutItem example_world table win = None"
    "Getenv example_world ''REGION'' = ''eu-west-1''"
    "Getenv example_world ''TABLE_NAME'' = ''wins''" for win table
    by (simp_all add: example_world_def example_env_def)
  have now: "Now example_world 0 = example_now"
    by (simp add: example_world_def)
  have bob: "PutItem example_world request_bob =
     (None, [NewSession ''eu-west-1'', PutItemInput ''wins'' bob_win])"
    using C4_description_placeholder [of example_world request_bob] ok example_TTL now
    by (simp add: Let_def request_bob_def bob_win_def)
  have ann: "PutItem example_world request_ann =
     (None, [NewSession ''eu-west-1'', PutItemInput ''wins'' ann_win])"
    using C4_description_placeholder [of example_world request_ann] ok example_TTL now
    by (simp add: Let_def request_ann_def ann_win_def)
  show ?thesis
    using bob ann by (simp add: request_bob_def request_ann_def bob_win_def ann_win_def)
qed

text \<open>
  C5, as amended. \<open>PutItem\<close> validates nothing: every \<open>Win\<close> it writes has the \<open>who\<close> and
  the \<open>title\<close> of the submission, as they came.
\<close>

theorem C5_who_title_copied:
  assumes "win \<in> set (written (snd (PutItem w request)))"
  shows "Win.Who win = submission.Who (Submission request) \<and>
         Win.Title win = submission.Title (Submission request)"
  using assms written_PutItem [of w request] by auto

text \<open>
  The submission of the example.
\<close>

theorem C5_who_title_copied_witness:
  "written (snd (PutItem example_world request_bob)) = [bob_win] \<and>
   Win.Who bob_win = submission.Who (Submission request_bob) \<and>
   Win.Title bob_win = submission.Title (Submission request_bob)"
proof -
  have w: "written (snd (PutItem example_world request_bob)) = [bob_win]"
    by (simp add: example_PutItem_bob)
  then have "bob_win \<in> set (written (snd (PutItem example_world request_bob)))"
    by simp
  from C5_who_title_copied [OF this] w show ?thesis by simp
qed

text \<open>
  C5 as stated fails: a submission with an empty title is written with an empty title, and
  the store accepts it.
\<close>

theorem C5_counterexample_empty_title:
  "url_ParseQuery example_world body_untitled ''payload'' = [payload_untitled] \<and>
   json_Unmarshal example_world payload_untitled = (request_untitled, None) \<and>
   Interactive_Handler example_world body_untitled =
     (Returned \<lparr>StatusCode = 200, IsBase64Encoded = False, Body = [],
        Headers = [''Content-Type'' \<mapsto> ''application/json'']\<rparr> None,
      [NewSession ''eu-west-1'', PutItemInput ''wins'' untitled_win]) \<and>
   dynamodb_PutItem example_world ''wins'' untitled_win = None \<and>
   Win.Title untitled_win = []"
proof -
  have payload: "url_ParseQuery example_world body_untitled ''payload'' = [payload_untitled]"
    by (simp add: example_world_def example_ParseQuery_def)
       (simp add: body_untitled_def body_bob_def example_body_def)
  have decode: "json_Unmarshal example_world payload_untitled = (request_untitled, None)"
    by (simp add: example_world_def) (simp add: payload_untitled_def payload_bob_def)
  have put: "PutItem example_world request_untitled =
      (None, [NewSession ''eu-west-1'', PutItemInput ''wins'' untitled_win])"
    by (simp add: PutItem_def GetDB_def example_world_def example_env_def request_untitled_def
      untitled_win_def Let_def AddDate_days_def abs_sec_def Date_unix_def UTC_lookup_def
      Unix_def nsec_def Second_def example_now_def)
  have "Interactive_Handler example_world body_untitled =
     (Returned \<lparr>StatusCode = 200, IsBase64Encoded = False, Body = [],
        Headers = [''Content-Type'' \<mapsto> ''application/json'']\<rparr> None,
      [NewSession ''eu-west-1'', PutItemInput ''wins'' untitled_win])"
    using example_parse [of body_untitled] payload decode put
    by (simp add: Interactive_Handler_def index0_def json_headers_def)
  then show ?thesis
    using payload decode by (simp add: example_world_def untitled_win_def)
qed

subsection \<open>Command Intake: routing\<close>

text \<open>
  C6, as amended. For a decoded request with the right token, \<open>getSummary\<close> is invoked
  exactly when the text in lower case equals \<open>summary\<close>. The text is not trimmed.
\<close>

theorem C6_summary_route_lowercase:
  assumes "url_Parse w (''?'' @ body) = Inr rawQuery"
    and "decode_Request (url_ParseQuery w rawQuery) = Some request"
    and "Command_Request.Token request = Getenv w ''SLACK_VERIFICATION_TOKEN''"
  shows "summary_invoked (snd (Command_Handler w body)) \<longleftrightarrow>
         ToLower (Text request) = ''summary''"
proof (cases "ToLower (Text request) = ''summary''")
  case True
  obtain evs where evs: "snd (getSummary w request) = NewSession (Getenv w ''REGION'') # evs"
    using getSummary_events [of w request] by blast
  obtain wins err where g: "getSummary w request = ((wins, err), NewSession (Getenv w ''REGION'') # evs)"
    using evs by (cases "getSummary w request") auto
  obtain derr devs where d: "Handler_dialog w request = (derr, devs)"
    by (cases "Handler_dialog w request")
  have "summary_invoked (snd (Command_Handler w body))"
    using assms True g d
    by (simp add: Command_Handler_def summary_invoked_def split: option.split)
  then show ?thesis using True by simp
next
  case False
  obtain derr devs where d: "Handler_dialog w request = (derr, devs)"
    by (cases "Handler_dialog w request")
  then have "devs = snd (Handler_dialog w request)" by simp
  then have "\<not> list_ex is_NewSession devs"
    by (simp add: Handler_dialog_events)
  then have "\<not> summary_invoked (snd (Command_Handler w body))"
    using assms False d by (simp add: Command_Handler_def summary_invoked_def)
  then show ?thesis using False by simp
qed

text \<open>
  The text \<open>Summary\<close> is routed to the summary.
\<close>

theorem C6_summary_route_lowercase_witness:
  "ToLower (Text (example_request ''secret'' ''Summary'')) = ''summary'' \<and>
   summary_invoked (snd (Command_Handler example_world (example_body ''secret'' ''Summary'')))"
proof -
  have route: "ToLower (Text (example_request ''secret'' ''Summary'')) = ''summary''"
    by (simp add: example_request_def ToLower_examples)
  with C6_summary_route_lowercase [OF example_parse example_decode(3) example_token] show ?thesis
    by simp
qed

text \<open>
  C6 as stated fails: the text \<open>summary\<close> with a space on either side (the body carries
  \<open>+summary+\<close>) opens the dialog and nothing else.
\<close>

theorem C6_counterexample_spaces:
  "decode_Request (url_ParseQuery example_world (example_body ''secret'' ''+summary+'')) =
     Some (example_request ''secret'' '' summary '') \<and>
   Text (example_request ''secret'' '' summary '') = '' summary '' \<and>
   Command_Handler example_world (example_body ''secret'' ''+summary+'') =
    (Returned \<lparr>StatusCode = 200, IsBase64Encoded = False, Body = [],
       Headers = [''Content-Type'' \<mapsto> ''application/json'']\<rparr> None,
     [Do \<lparr>Method = ''POST'', URL = ''https://slack.com/api/dialog.open'',
          ContentType = ''application/json'', Authorization = ''Bearer xoxb-1'',
          Content = ''{trigger_id: tr1}''\<rparr>]) \<and>
   \<not> summary_invoked (snd (Command_Handler example_world (example_body ''secret'' ''+summary+'')))"
proof -
  have route: "ToLower (Text (example_request ''secret'' '' summary '')) \<noteq> ''summary''"
    by (simp add: example_request_def ToLower_examples)
  have run: "Command_Handler example_world (example_body ''secret'' ''+summary+'') =
    (Returned \<lparr>StatusCode = 200, IsBase64Encoded = False, Body = [],
       Headers = [''Content-Type'' \<mapsto> ''application/json'']\<rparr> None,
     [Do \<lparr>Method = ''POST'', URL = ''https://slack.com/api/dialog.open'',
          ContentType = ''application/json'', Authorization = ''Bearer xoxb-1'',
          Content = ''{trigger_id: tr1}''\<rparr>])"
    using route example_decode(4) example_token [of "'' summary ''"]
      example_dialog [of "'' summary ''"]
      example_parse [of "example_body ''secret'' ''+summary+''"]
    by (simp add: Command_Handler_def json_headers_def)
  show ?thesis
    using example_decode(4) run
    by (simp add: example_request_def summary_invoked_def)
qed

subsection \<open>Command Intake: the dialog\<close>

text \<open>
  C7, as amended. A decoded request with the right token whose text, in lower case, is not
  \<open>summary\<close> leads to exactly one call, the POST to the dialog-open endpoint, and to the
  response with status 200, an empty body and the JSON content type, with a nil error.
  Nothing is assumed about \<open>client_Do\<close> or about the decoding of its answer: the response
  is the same whether the dialog-open call succeeds or fails.
\<close>

theorem C7_dialog_opened_once:
  assumes "url_Parse w (''?'' @ body) = Inr rawQuery"
    and "decode_Request (url_ParseQuery w rawQuery) = Some request"
    and "Command_Request.Token request = Getenv w ''SLACK_VERIFICATION_TOKEN''"
    and "ToLower (Text request) \<noteq> ''summary''"
  shows "Command_Handler w body =
    (Returned \<lparr>StatusCode = 200, IsBase64Encoded = False, Body = [],
       Headers = [''Content-Type'' \<mapsto> ''application/json'']\<rparr> None,
     [Do \<lparr>Method = ''POST'', URL = ''https://slack.com/api/dialog.open'',
          ContentType = ''application/json'',
          Authorization = ''Bearer '' @ Getenv w ''SLACK_ACCESS_TOKEN'',
          Content = json_encode_Payload w (dialog_Payload request)\<rparr>])"
proof -
  obtain err devs where d: "Handler_dialog w request = (err, devs)"
    by (cases "Handler_dialog w request")
  then have "devs = snd (Handler_dialog w request)" by simp
  then have devs: "devs = [Do \<lparr>Method = ''POST'', URL = ''https://slack.com/api/dialog.open'',
          ContentType = ''application/json'',
          Authorization = ''Bearer '' @ Getenv w ''SLACK_ACCESS_TOKEN'',
          Content = json_encode_Payload w (dialog_Payload request)\<rparr>]"
    by (simp add: Handler_dialog_events apiEndpoint_def)
  show ?thesis
    using assms d devs by (simp add: Command_Handler_def json_headers_def)
qed

text \<open>The text \<open>Alice\<close>, once where the platform answers and once where it cannot be
  reached.\<close>

theorem C7_dialog_opened_once_witness:
  "ToLower (Text (example_request ''secret'' ''Alice'')) \<noteq> ''summary'' \<and>
   client_Do example_world
     \<lparr>Method = ''POST'', URL = ''https://slack.com/api/dialog.open'',
      ContentType = ''application/json'', Authorization = ''Bearer xoxb-1'',
      Content = ''{trigger_id: tr1}''\<rparr> = Inr ''{ok: true}'' \<and>
   Command_Handler example_world (example_body ''secret'' ''Alice'') =
    (Returned \<lparr>StatusCode = 200, IsBase64Encoded = False, Body = [],
       Headers = [''Content-Type'' \<mapsto> ''application/json'']\<rparr> None,
     [Do \<lparr>Method = ''POST'', URL = ''https://slack.com/api/dialog.open'',
          ContentType = ''application/json'', Authorization = ''Bearer xoxb-1'',
          Content = ''{trigger_id: tr1}''\<rparr>]) \<and>
   client_Do offline_world
     \<lparr>Method = ''POST'', URL = ''https://slack.com/api/dialog.open'',
      ContentType = ''application/json'', Authorization = ''Bearer xoxb-1'',
      Content = ''{trigger_id: tr1}''\<rparr> = Inl ''dial tcp: i/o timeout'' \<and>
   Command_Handler offline_world (example_body ''secret'' ''Alice'') =
    (Returned \<lparr>StatusCode = 200, IsBase64Encoded = False, Body = [],
       Headers = [''Content-Type'' \<mapsto> ''application/json'']\<rparr> None,
     [Do \<lparr>Method = ''POST'', URL = ''https://slack.com/api/dialog.open'',
          ContentType = ''application/json'', Authorization = ''Bearer xoxb-1'',
          Content = ''{trigger_id: tr1}''\<rparr>])"
proof -
  have route: "ToLower (Text (example_request ''secret'' ''Alice'')) \<noteq> ''summary''"
    by (simp add: example_request_def ToLower_examples)
  have token: "Command_Request.Token (example_request ''secret'' ''Alice'') =
      Getenv example_world ''SLACK_VERIFICATION_TOKEN''"
    "Command_Request.Token (example_request ''secret'' ''Alice'') =
      Getenv offline_world ''SLACK_VERIFICATION_TOKEN''"
    by (simp_all add: example_request_def example_world_def offline_world_def example_env_def)
  have parse: "url_Parse offline_world (''?'' @ example_body ''secret'' ''Alice'') =
      Inr (example_body ''secret'' ''Alice'')"
    by (simp add: offline_world_def example_world_def)
  have decode: "decode_Request (url_ParseQuery offline_world (example_body ''secret'' ''Alice'')) =
      Some (example_request ''secret'' ''Alice'')"
    using example_decode(2) by (simp add: offline_world_def example_world_def)
  have online: "Command_Handler example_world (example_body ''secret'' ''Alice'') =
    (Returned \<lparr>StatusCode = 200, IsBase64Encoded = False, Body = [],
       Headers = [''Content-Type'' \<mapsto> ''application/json'']\<rparr> None,
     [Do \<lparr>Method = ''POST'', URL = ''https://slack.com/api/dialog.open'',
          ContentType = ''application/json'', Authorization = ''Bearer xoxb-1'',
          Content = ''{trigger_id: tr1}''\<rparr>])"
    using C7_dialog_opened_once [OF example_parse example_decode(2) token(1) route]
    by (simp add: example_world_def example_env_def dialog_Payload_def example_request_def)
  have offline: "Command_Handler offline_world (example_body ''secret'' ''Alice'') =
    (Returned \<lparr>StatusCode = 200, IsBase64Encoded = False, Body = [],
       Headers = [''Content-Type'' \<mapsto> ''application/json'']\<rparr> None,
     [Do \<lparr>Method = ''POST'', URL = ''https://slack.com/api/dialog.open'',
          ContentType = ''application/json'', Authorization = ''Bearer xoxb-1'',
          Content = ''{trigger_id: tr1}''\<rparr>])"
    using C7_dialog_opened_once [OF parse decode token(2) route]
    by (simp add: offline_world_def example_world_def example_env_def dialog_Payload_def
        example_request_def)
  show ?thesis
    using route online offline by (simp add: example_world_def offline_world_def)
qed

text \<open>
  C7 as stated fails on a text that differs from \<open>summary\<close> in case only: \<open>Summary\<close>
  takes the summary route first, and when the scan fails the handler returns status 400 and
  never opens the dialog.
\<close>

theorem C7_counterexample_summary_case:
  "Command_Request.Token (example_request ''secret'' ''Summary'') =
     Getenv offline_world ''SLACK_VERIFICATION_TOKEN'' \<and>
   Text (example_request ''secret'' ''Summary'') \<noteq> ''summary'' \<and>
   Command_Handler offline_world (example_body ''secret'' ''Summary'') =
     (Returned \<lparr>StatusCode = 400, IsBase64Encoded = False,
        Body = ''KanowinsCommand summary - error: RequestError: send request failed'',
        Headers = [''Content-Type'' \<mapsto> ''application/json'']\<rparr>
        (Some ''RequestError: send request failed''),
      [NewSession ''eu-west-1'', ScanInput ''wins''])"
proof -
  have wins: "GetWins offline_world =
     (([], Some ''RequestError: send request failed''),
      [NewSession ''eu-west-1'', ScanInput ''wins''])"
    by (simp add: GetWins_def GetDB_def offline_world_def example_world_def example_env_def
        Let_def)
  then have summary: "getSummary offline_world (example_request ''secret'' ''Summary'') =
     (([], Some ''RequestError: send request failed''),
      [NewSession ''eu-west-1'', ScanInput ''wins''])"
    by (simp add: getSummary_def)
  have "Command_Handler offline_world (example_body ''secret'' ''Summary'') =
     (Returned \<lparr>StatusCode = 400, IsBase64Encoded = False,
        Body = ''KanowinsCommand summary - error: RequestError: send request failed'',
        Headers = [''Content-Type'' \<mapsto> ''application/json'']\<rparr>
        (Some ''RequestError: send request failed''),
      [NewSession ''eu-west-1'', ScanInput ''wins''])"
    using world_parse(1) [of "example_body ''secret'' ''Summary''"] world_decode(1)
      world_token(1) [of "''Summary''"] Summary_route summary
    by (simp add: Command_Handler_def handler_Command_def json_headers_def)
  then show ?thesis
    using world_token(1) [of "''Summary''"] by (simp add: example_request_def)
qed

subsection \<open>Dialog Capture: the response\<close>

text \<open>
  C8, as amended. For every body that parses and carries a \<open>payload\<close> field, the handler
  returns status 200 with an empty body, the JSON content type and a nil error. Nothing is
  assumed about \<open>json_Unmarshal\<close> or about the calls of \<open>PutItem\<close>: a payload that does not
  decode and a write that fails leave the response as it is.
\<close>

theorem C8_payload_present_returns_200:
  assumes "url_Parse w (''?'' @ body) = Inr rawQuery"
    and "url_ParseQuery w rawQuery ''payload'' \<noteq> []"
  shows "fst (Interactive_Handler w body) =
    Returned \<lparr>StatusCode = 200, IsBase64Encoded = False, Body = [],
       Headers = [''Content-Type'' \<mapsto> ''application/json'']\<rparr> None"
  using assms
  by (simp add: Interactive_Handler_def index0_def json_headers_def Let_def
      split: list.split prod.split)

text \<open>
  A payload that is not JSON, where the store cannot be reached.
\<close>

theorem C8_payload_present_returns_200_witness:
  "url_ParseQuery offline_world ''payload=%7B'' ''payload'' = [''{''] \<and>
   json_Unmarshal offline_world ''{'' = (request_zero, Some ''unexpected end of JSON input'') \<and>
   fst (PutItem offline_world request_zero) = Some ''RequestError: send request failed'' \<and>
   fst (Interactive_Handler offline_world ''payload=%7B'') =
    Returned \<lparr>StatusCode = 200, IsBase64Encoded = False, Body = [],
       Headers = [''Content-Type'' \<mapsto> ''application/json'']\<rparr> None"
proof -
  have parse: "url_Parse offline_world (''?'' @ ''payload=%7B'') = Inr ''payload=%7B''"
    by (simp add: offline_world_def example_world_def)
  have payload: "url_ParseQuery offline_world ''payload=%7B'' ''payload'' = [''{'']"
    by (simp add: offline_world_def example_world_def example_ParseQuery_def example_body_def
        body_bob_def body_untitled_def)
  then have present: "url_ParseQuery offline_world ''payload=%7B'' ''payload'' \<noteq> []"
    by simp
  have decode: "json_Unmarshal offline_world ''{'' =
      (request_zero, Some ''unexpected end of JSON input'')"
    by (simp add: offline_world_def example_world_def payload_bob_def payload_untitled_def)
  have put: "fst (PutItem offline_world request_zero) = Some ''RequestError: send request failed''"
    by (simp add: PutItem_def GetDB_def offline_world_def example_world_def Let_def)
  show ?thesis
    using C8_payload_present_returns_200 [OF parse present] payload decode put by simp
qed

text \<open>
  C8 as stated fails on a body with no \<open>payload\<close> field, here the empty body:
  \<open>query["payload"][0]\<close> panics and no response is returned.
\<close>

theorem C8_counterexample_no_payload:
  "url_Parse example_world (''?'' @ []) = Inr [] \<and>
   url_ParseQuery example_world [] ''payload'' = [] \<and>
   Interactive_Handler example_world [] = (Panicked IndexOutOfRange, [])"
  by (simp add: Interactive_Handler_def index0_def example_world_def example_ParseQuery_def
      example_body_def body_bob_def body_untitled_def)

subsection \<open>Command Intake: errors of the summary\<close>

text \<open>
  C9, as amended. On the summary route \<open>getSummary\<close> returns an error exactly when the read
  of the store fails (session, scan or unmarshalling), the request for the callback URL
  cannot be built, the POST fails, or the body of the acknowledgement does not decode as
  JSON. Command Intake answers an error with status 400 and the body
  \<open>KanowinsCommand summary - error: \<close> followed by the error, and no error with status 200.
\<close>

theorem C9_summary_error_propagation:
  assumes "url_Parse w (''?'' @ body) = Inr rawQuery"
    and "decode_Request (url_ParseQuery w rawQuery) = Some request"
    and "Command_Request.Token request = Getenv w ''SLACK_VERIFICATION_TOKEN''"
    and "ToLower (Text request) = ''summary''"
  shows "(snd (fst (getSummary w request)) \<noteq> None \<longleftrightarrow>
            snd (fst (GetWins w)) \<noteq> None
          \<or> http_NewRequest w ''POST'' (Command_Request.ResponseURL request) \<noteq> None
          \<or> (case client_Do w (summary_request w request (fst (fst (GetWins w)))) of
                Inl err \<Rightarrow> True
              | Inr respBody \<Rightarrow> json_Decode_map w respBody \<noteq> None))
       \<and> fst (Command_Handler w body) =
           (case snd (fst (getSummary w request)) of
              Some err \<Rightarrow>
                Returned \<lparr>StatusCode = 400, IsBase64Encoded = False,
                  Body = ''KanowinsCommand summary - error: '' @ err,
                  Headers = [''Content-Type'' \<mapsto> ''application/json'']\<rparr> (Some err)
            | None \<Rightarrow>
                Returned \<lparr>StatusCode = 200, IsBase64Encoded = False, Body = [],
                  Headers = [''Content-Type'' \<mapsto> ''application/json'']\<rparr> None)"
proof
  show "snd (fst (getSummary w request)) \<noteq> None \<longleftrightarrow>
            snd (fst (GetWins w)) \<noteq> None
          \<or> http_NewRequest w ''POST'' (Command_Request.ResponseURL request) \<noteq> None
          \<or> (case client_Do w (summary_request w request (fst (fst (GetWins w)))) of
                Inl err \<Rightarrow> True
              | Inr respBody \<Rightarrow> json_Decode_map w respBody \<noteq> None)"
    unfolding getSummary_error by (simp split: option.split sum.split)
next
  obtain wins err evs where g: "getSummary w request = ((wins, err), evs)"
    by (cases "getSummary w request") auto
  obtain derr devs where d: "Handler_dialog w request = (derr, devs)"
    by (cases "Handler_dialog w request")
  show "fst (Command_Handler w body) =
           (case snd (fst (getSummary w request)) of
              Some err \<Rightarrow>
                Returned \<lparr>StatusCode = 400, IsBase64Encoded = False,
                  Body = ''KanowinsCommand summary - error: '' @ err,
                  Headers = [''Content-Type'' \<mapsto> ''application/json'']\<rparr> (Some err)
            | None \<Rightarrow>
                Returned \<lparr>StatusCode = 200, IsBase64Encoded = False, Body = [],
                  Headers = [''Content-Type'' \<mapsto> ''application/json'']\<rparr> None)"
    using assms g d
    by (simp add: Command_Handler_def handler_Command_def json_headers_def split: option.split)
qed

text \<open>
  The scan fails: status 400 with the error of the scan.
\<close>

theorem C9_summary_error_propagation_witness:
  "GetWins offline_world =
     (([], Some ''RequestError: send request failed''),
      [NewSession ''eu-west-1'', ScanInput ''wins'']) \<and>
   fst (Command_Handler offline_world (example_body ''secret'' ''Summary'')) =
     Returned \<lparr>StatusCode = 400, IsBase64Encoded = False,
       Body = ''KanowinsCommand summary - error: RequestError: send request failed'',
       Headers = [''Content-Type'' \<mapsto> ''application/json'']\<rparr>
       (Some ''RequestError: send request failed'')"
proof -
  have wins: "GetWins offline_world =
     (([], Some ''RequestError: send request failed''),
      [NewSession ''eu-west-1'', ScanInput ''wins''])"
    by (simp add: GetWins_def GetDB_def offline_world_def example_world_def example_env_def
        Let_def)
  then have "snd (fst (getSummary offline_world (example_request ''secret'' ''Summary''))) =
      Some ''RequestError: send request failed''"
    by (simp add: getSummary_def)
  with C9_summary_error_propagation [OF world_parse(1) world_decode(1) world_token(1) Summary_route] wins
  show ?thesis by simp
qed

text \<open>
  C9 as stated fails: the store is read, the report is delivered, the callback URL answers
  with the plain text \<open>ok\<close>, and the handler returns status 400 with the decoder's error.
\<close>

theorem C9_counterexample_plain_ok:
  "GetWins plain_ok_world =
     ((example_wins, None), [NewSession ''eu-west-1'', ScanInput ''wins'']) \<and>
   http_NewRequest plain_ok_world ''POST'' ''https://hooks.slack.com/commands/1'' = None \<and>
   client_Do plain_ok_world
     (summary_request plain_ok_world (example_request ''secret'' ''Summary'') example_wins) =
     Inr ''ok'' \<and>
   Command_Handler plain_ok_world (example_body ''secret'' ''Summary'') =
     (Returned \<lparr>StatusCode = 400, IsBase64Encoded = False,
        Body = ''KanowinsCommand summary - error: invalid character 'o' looking for beginning of value'',
        Headers = [''Content-Type'' \<mapsto> ''application/json'']\<rparr>
        (Some ''invalid character 'o' looking for beginning of value''),
      [NewSession ''eu-west-1'', ScanInput ''wins'',
       Do (summary_request plain_ok_world (example_request ''secret'' ''Summary'') example_wins)])"
proof -
  have wins: "GetWins plain_ok_world =
     ((example_wins, None), [NewSession ''eu-west-1'', ScanInput ''wins''])"
    by (simp add: GetWins_def GetDB_def plain_ok_world_def example_world_def example_env_def
        Let_def)
  have new: "http_NewRequest plain_ok_world ''POST'' ''https://hooks.slack.com/commands/1'' = None"
    by (simp add: http_NewRequest_def plain_ok_world_def example_world_def)
  have do: "client_Do plain_ok_world r = Inr ''ok''" for r
    by (simp add: plain_ok_world_def)
  have ack: "json_Decode_map plain_ok_world ''ok'' =
      Some ''invalid character 'o' looking for beginning of value''"
    by (simp add: plain_ok_world_def)
  have url: "Command_Request.ResponseURL (example_request ''secret'' ''Summary'') =
      ''https://hooks.slack.com/commands/1''"
    by (simp add: example_request_def)
  have summary: "getSummary plain_ok_world (example_request ''secret'' ''Summary'') =
     ((example_wins, Some ''invalid character 'o' looking for beginning of value''),
      [NewSession ''eu-west-1'', ScanInput ''wins'',
       Do (summary_request plain_ok_world (example_request ''secret'' ''Summary'') example_wins)])"
    by (simp add: getSummary_def wins url new do ack Let_def)
  have "Command_Handler plain_ok_world (example_body ''secret'' ''Summary'') =
     (Returned \<lparr>StatusCode = 400, IsBase64Encoded = False,
        Body = ''KanowinsCommand summary - error: invalid character 'o' looking for beginning of value'',
        Headers = [''Content-Type'' \<mapsto> ''application/json'']\<rparr>
        (Some ''invalid character 'o' looking for beginning of value''),
      [NewSession ''eu-west-1'', ScanInput ''wins'',
       Do (summary_request plain_ok_world (example_request ''secret'' ''Summary'') example_wins)])"
    using world_parse(2) [of "example_body ''secret'' ''Summary''"] world_decode(2)
      world_token(2) [of "''Summary''"] Summary_route summary
    by (simp add: Command_Handler_def handler_Command_def json_headers_def)
  then show ?thesis
    using wins new do by simp
qed

subsection \<open>Missing form fields\<close>

text \<open>
  C10. For a body that \<open>url.Parse\<close> accepts, Command Intake panics on an index out of range,
  before any call, exactly when one of its ten keys has no value, and Dialog Capture does so
  exactly when \<open>payload\<close> has no value. With every key present neither handler panics
  there. (When \<open>url.Parse\<close> rejects the body, the panic is the nil dereference of \<open>form\<close>.)
\<close>

theorem C10_missing_field_panics:
  assumes "url_Parse w (''?'' @ body) = Inr rawQuery"
  shows "((\<exists>k \<in> set Command_fields. url_ParseQuery w rawQuery k = []) \<longleftrightarrow>
            Command_Handler w body = (Panicked IndexOutOfRange, []))
       \<and> (url_ParseQuery w rawQuery ''payload'' = [] \<longleftrightarrow>
            Interactive_Handler w body = (Panicked IndexOutOfRange, []))"
proof
  show "(\<exists>k \<in> set Command_fields. url_ParseQuery w rawQuery k = []) \<longleftrightarrow>
      Command_Handler w body = (Panicked IndexOutOfRange, [])"
  proof (cases "decode_Request (url_ParseQuery w rawQuery)")
    case None
    then show ?thesis
      using assms decode_Request_None [of "url_ParseQuery w rawQuery"]
      by (simp add: Command_Handler_def)
  next
    case (Some request)
    then have present: "\<not> (\<exists>k \<in> set Command_fields. url_ParseQuery w rawQuery k = [])"
      using decode_Request_None [of "url_ParseQuery w rawQuery"] by simp
    have "fst (Command_Handler w body) \<noteq> Panicked IndexOutOfRange"
      using assms Some
      by (simp add: Command_Handler_def Let_def split: prod.split option.split)
    then have "Command_Handler w body \<noteq> (Panicked IndexOutOfRange, [])"
      by auto
    with present show ?thesis by simp
  qed
next
  show "url_ParseQuery w rawQuery ''payload'' = [] \<longleftrightarrow>
      Interactive_Handler w body = (Panicked IndexOutOfRange, [])"
    using assms
    by (simp add: Interactive_Handler_def index0_def Let_def split: list.split prod.split)
qed

text \<open>
  A body with \<open>token\<close> and \<open>text\<close> only.
\<close>

theorem C10_missing_field_panics_witness:
  "url_ParseQuery example_world ''token=secret&text=Alice'' ''team_id'' = [] \<and>
   Command_Handler example_world ''token=secret&text=Alice'' = (Panicked IndexOutOfRange, []) \<and>
   url_ParseQuery example_world ''token=secret&text=Alice'' ''payload'' = [] \<and>
   Interactive_Handler example_world ''token=secret&text=Alice'' = (Panicked IndexOutOfRange, [])"
proof -
  have missing: "url_ParseQuery example_world ''token=secret&text=Alice'' ''team_id'' = []"
    "url_ParseQuery example_world ''token=secret&text=Alice'' ''payload'' = []"
    by (simp_all add: example_world_def example_ParseQuery_def example_body_def
        body_bob_def body_untitled_def)
  have "''team_id'' \<in> set Command_fields"
    by (simp add: Command_fields_def)
  with missing(1)
  have field: "\<exists>k \<in> set Command_fields.
      url_ParseQuery example_world ''token=secret&text=Alice'' k = []"
    by blast
  from C10_missing_field_panics [OF example_parse, of "''token=secret&text=Alice''"] field missing
  show ?thesis by simp
qed

end
